theory Spec2Isabelle
  imports Complex_Main "HOL-Library.AList"
begin

section \<open>Python values and strings\<close>

text \<open>
  The values that \<^verbatim>\<open>json.loads\<close> produces. A Python \<^verbatim>\<open>None\<close> is \<open>JNull\<close>, an
  unbounded Python integer is an \<open>int\<close>. A float is represented by the real number it
  denotes: the code below only inspects its type tag and whether it is zero. A dictionary
  is the list of its items, read with \<open>map_of\<close> and written with \<open>AList.update\<close>.
  Strings are lists of characters; the character classes below are the ASCII ones.
\<close>

datatype json =
    JNull
  | JBool bool
  | JInt int
  | JFloat real
  | JStr string
  | JList "json list"
  | JObj "(string \<times> json) list"

type_synonym pydict = "(string \<times> json) list"

text \<open>\<^verbatim>\<open>d.get(k)\<close>: the value, or \<^verbatim>\<open>None\<close> when the key is absent.\<close>

definition dict_get :: "pydict \<Rightarrow> string \<Rightarrow> json" where
  "dict_get d k = (case map_of d k of None \<Rightarrow> JNull | Some v \<Rightarrow> v)"

text \<open>\<^verbatim>\<open>d.get(k, dflt)\<close>: the default is returned only when the key is absent.\<close>

definition dict_get_default :: "pydict \<Rightarrow> string \<Rightarrow> json \<Rightarrow> json" where
  "dict_get_default d k dflt = (case map_of d k of None \<Rightarrow> dflt | Some v \<Rightarrow> v)"

text \<open>\<^verbatim>\<open>d[k] = v\<close>\<close>

definition dict_set :: "pydict \<Rightarrow> string \<Rightarrow> json \<Rightarrow> pydict" where
  "dict_set d k v = AList.update k v d"

text \<open>Python truthiness, as tested by \<^verbatim>\<open>if x\<close> and \<^verbatim>\<open>not x\<close>.\<close>

fun truthy :: "json \<Rightarrow> bool" where
  "truthy JNull = False"
| "truthy (JBool b) = b"
| "truthy (JInt i) = (i \<noteq> 0)"
| "truthy (JFloat r) = (r \<noteq> 0)"
| "truthy (JStr s) = (s \<noteq> [])"
| "truthy (JList xs) = (xs \<noteq> [])"
| "truthy (JObj kvs) = (kvs \<noteq> [])"

text \<open>\<^verbatim>\<open>isinstance(x, list)\<close>, \<^verbatim>\<open>isinstance(x, str)\<close> and \<^verbatim>\<open>isinstance(x, int)\<close>.
  In Python \<^verbatim>\<open>bool\<close> is a subclass of \<^verbatim>\<open>int\<close>.\<close>

fun isinstance_list :: "json \<Rightarrow> bool" where
  "isinstance_list (JList xs) = True"
| "isinstance_list v = False"

fun isinstance_str :: "json \<Rightarrow> bool" where
  "isinstance_str (JStr s) = True"
| "isinstance_str v = False"

fun isinstance_int :: "json \<Rightarrow> bool" where
  "isinstance_int (JInt i) = True"
| "isinstance_int (JBool b) = True"
| "isinstance_int v = False"

definition is_digit :: "char \<Rightarrow> bool" where
  "is_digit c = (c \<in> set ''0123456789'')"

definition digit_val :: "char \<Rightarrow> int" where
  "digit_val c =
     (case map_of [(CHR ''0'', 0), (CHR ''1'', 1), (CHR ''2'', 2), (CHR ''3'', 3),
                   (CHR ''4'', 4), (CHR ''5'', 5), (CHR ''6'', 6), (CHR ''7'', 7),
                   (CHR ''8'', 8), (CHR ''9'', 9)] c of
        None \<Rightarrow> 0 | Some n \<Rightarrow> n)"

text \<open>\<^verbatim>\<open>int(s)\<close> on a string of decimal digits.\<close>

definition int_of_digits :: "string \<Rightarrow> int" where
  "int_of_digits ds = foldl (\<lambda>acc c. 10 * acc + digit_val c) 0 ds"

text \<open>\<^verbatim>\<open>re.search(r'\d+', s)\<close>: the leftmost, longest run of digits, if there is one.\<close>

definition search_digits :: "string \<Rightarrow> string option" where
  "search_digits s =
     (let r = dropWhile (\<lambda>c. \<not> is_digit c) s
      in if r = [] then None else Some (takeWhile is_digit r))"

section \<open>The AI structured parser (cv\_parser.parse\_cv\_with\_ai)\<close>

text \<open>
  What the completion service call and \<^verbatim>\<open>json.loads\<close> on its content yield for the
  text sent: either some exception is raised inside the \<^verbatim>\<open>try\<close> block (network
  failure, malformed JSON), or a JSON value is decoded.
\<close>

datatype ai_reply = ServiceFails | Reply json

definition default_profile :: pydict where
  "default_profile =
     [(''name'', JNull), (''email'', JNull), (''phone'', JNull), (''location'', JNull),
      (''summary'', JNull), (''skills'', JList []), (''experience_years'', JInt 0),
      (''education'', JList []), (''work_experience'', JList [])]"

text \<open>\<^verbatim>\<open>if not isinstance(result.get(k, []), list): result[k] = []\<close>\<close>

definition ensure_list :: "string \<Rightarrow> pydict \<Rightarrow> pydict" where
  "ensure_list k result =
     (if \<not> isinstance_list (dict_get_default result k (JList []))
      then dict_set result k (JList []) else result)"

definition clean_experience_years :: "pydict \<Rightarrow> pydict" where
  "clean_experience_years result =
     (let exp_years = dict_get result ''experience_years'' in
      if truthy exp_years \<and> isinstance_str exp_years then
        (case exp_years of
           JStr s \<Rightarrow>
             dict_set result ''experience_years''
               (case search_digits s of
                  Some m \<Rightarrow> JInt (int_of_digits m)
                | None \<Rightarrow> JInt 0)
         | _ \<Rightarrow> result)
      else if \<not> isinstance_int exp_years then
        dict_set result ''experience_years'' (JInt 0)
      else result)"

text \<open>
  A decoded value that is not a dictionary has no \<^verbatim>\<open>get\<close> method: the first
  \<^verbatim>\<open>result.get\<close> raises \<^verbatim>\<open>AttributeError\<close>, which the handler turns into
  the default profile, as it does with a failure of the service call.
\<close>

definition parse_cv_with_ai :: "ai_reply \<Rightarrow> pydict" where
  "parse_cv_with_ai reply =
     (case reply of
        ServiceFails \<Rightarrow> default_profile
      | Reply (JObj result) \<Rightarrow>
          clean_experience_years
            (ensure_list ''work_experience''
              (ensure_list ''education''
                (ensure_list ''skills'' result)))
      | Reply _ \<Rightarrow> default_profile)"

section \<open>Strings as Python handles them\<close>

text \<open>
  The ASCII characters for which \<^verbatim>\<open>str.isspace\<close> holds; \<^verbatim>\<open>str.strip\<close>,
  \<^verbatim>\<open>str.split\<close> without argument and the regular-expression class \<^verbatim>\<open>\s\<close> use them.
\<close>

definition is_space :: "char \<Rightarrow> bool" where
  "is_space c = (c \<in> set [CHR 0x09, CHR 0x0A, CHR 0x0B, CHR 0x0C, CHR 0x0D,
                            CHR 0x1C, CHR 0x1D, CHR 0x1E, CHR 0x1F, CHR '' ''])"

definition is_upper :: "char \<Rightarrow> bool" where
  "is_upper c = (c \<in> set ''ABCDEFGHIJKLMNOPQRSTUVWXYZ'')"

definition is_lower :: "char \<Rightarrow> bool" where
  "is_lower c = (c \<in> set ''abcdefghijklmnopqrstuvwxyz'')"

definition is_alnum :: "char \<Rightarrow> bool" where
  "is_alnum c = (is_upper c \<or> is_lower c \<or> is_digit c)"

text \<open>\<^verbatim>\<open>s.strip()\<close>\<close>

definition strip :: "string \<Rightarrow> string" where
  "strip s = rev (dropWhile is_space (rev (dropWhile is_space s)))"

definition lower_char :: "char \<Rightarrow> char" where
  "lower_char c =
     (case map_of (zip ''ABCDEFGHIJKLMNOPQRSTUVWXYZ'' ''abcdefghijklmnopqrstuvwxyz'') c of
        None \<Rightarrow> c | Some l \<Rightarrow> l)"

text \<open>\<^verbatim>\<open>s.lower()\<close>\<close>

definition lower :: "string \<Rightarrow> string" where
  "lower s = map lower_char s"

text \<open>\<^verbatim>\<open>s.startswith(p)\<close> and \<^verbatim>\<open>s.endswith(p)\<close>\<close>

definition startswith :: "string \<Rightarrow> string \<Rightarrow> bool" where
  "startswith s p = (take (length p) s = p)"

definition endswith :: "string \<Rightarrow> string \<Rightarrow> bool" where
  "endswith s p = (length p \<le> length s \<and> drop (length s - length p) s = p)"

text \<open>\<^verbatim>\<open>sub in s\<close>\<close>

fun contains :: "string \<Rightarrow> string \<Rightarrow> bool" where
  "contains [] sub = (sub = [])"
| "contains (c # cs) sub = (startswith (c # cs) sub \<or> contains cs sub)"

text \<open>\<^verbatim>\<open>s.replace(CHR c, '')\<close> for a single character.\<close>

definition remove_char :: "char \<Rightarrow> string \<Rightarrow> string" where
  "remove_char c s = filter (\<lambda>x. x \<noteq> c) s"

text \<open>\<^verbatim>\<open>s.split('\n')\<close>: the pieces between newlines, empty pieces included.\<close>

fun split_lines_acc :: "string \<Rightarrow> string \<Rightarrow> string list" where
  "split_lines_acc [] cur = [cur]"
| "split_lines_acc (c # cs) cur =
     (if c = CHR 0x0A then cur # split_lines_acc cs [] else split_lines_acc cs (cur @ [c]))"

definition split_lines :: "string \<Rightarrow> string list" where
  "split_lines s = split_lines_acc s []"

text \<open>\<^verbatim>\<open>s.split()\<close>: the maximal runs of characters that are not whitespace.\<close>

fun split_ws_acc :: "string \<Rightarrow> string \<Rightarrow> string list" where
  "split_ws_acc [] cur = (if cur = [] then [] else [cur])"
| "split_ws_acc (c # cs) cur =
     (if is_space c then (if cur = [] then split_ws_acc cs [] else cur # split_ws_acc cs [])
      else split_ws_acc cs (cur @ [c]))"

definition split_ws :: "string \<Rightarrow> string list" where
  "split_ws s = split_ws_acc s []"

section \<open>Exceptions\<close>

text \<open>
  The exceptions that the library calls of this code raise. All of them are subclasses of
  \<^verbatim>\<open>Exception\<close>, so an \<^verbatim>\<open>except Exception\<close> clause catches each. A computation that
  may raise has a result of type \<open>exn + 'a\<close>, with \<open>Inl\<close> for the exception.
\<close>

datatype exn =
    UnicodeDecodeError
  | OSError
  | IntegrityError
  | PendingRollbackError
  | OtherException

section \<open>The document text extractor (cv\_parser.extract\_text\_from\_file)\<close>

text \<open>
  A stored file, seen through the libraries that read it: what opening it with PyPDF2 and
  extracting each page yields, what python-docx yields, and what reading it as text in
  UTF-8 and in Latin-1 yields. Each of them may raise. The file system is the list of the
  stored files by path.
\<close>

record stored_file =
  pdf_pages :: "exn + (exn + string) list"
  docx_paragraphs :: "exn + string list"
  utf8_text :: "exn + string"
  latin1_text :: "exn + string"

type_synonym filesystem = "(string \<times> stored_file) list"

text \<open>The loop \<^verbatim>\<open>for page in pdf_reader.pages: text += page.extract_text() + "\n"\<close>\<close>

fun concat_pages :: "(exn + string) list \<Rightarrow> string \<Rightarrow> exn + string" where
  "concat_pages [] text = Inr text"
| "concat_pages (Inl e # pages) text = Inl e"
| "concat_pages (Inr t # pages) text = concat_pages pages (text @ t @ [CHR 0x0A])"

text \<open>The loop \<^verbatim>\<open>for paragraph in doc.paragraphs: text += paragraph.text + "\n"\<close>\<close>

fun concat_paragraphs :: "string list \<Rightarrow> string \<Rightarrow> string" where
  "concat_paragraphs [] text = text"
| "concat_paragraphs (t # ps) text = concat_paragraphs ps (text @ t @ [CHR 0x0A])"

text \<open>The body of the \<^verbatim>\<open>try\<close> block of \<^verbatim>\<open>extract_text_from_pdf\<close>, then the function.\<close>

definition pdf_try :: "stored_file \<Rightarrow> exn + string" where
  "pdf_try f =
     (case pdf_pages f of
        Inl e \<Rightarrow> Inl e
      | Inr pages \<Rightarrow>
          (case concat_pages pages [] of Inl e \<Rightarrow> Inl e | Inr text \<Rightarrow> Inr (strip text)))"

definition extract_text_from_pdf :: "stored_file \<Rightarrow> exn + string" where
  "extract_text_from_pdf f = (case pdf_try f of Inl e \<Rightarrow> Inr [] | Inr text \<Rightarrow> Inr text)"

definition docx_try :: "stored_file \<Rightarrow> exn + string" where
  "docx_try f =
     (case docx_paragraphs f of
        Inl e \<Rightarrow> Inl e
      | Inr ps \<Rightarrow> Inr (strip (concat_paragraphs ps [])))"

definition extract_text_from_docx :: "stored_file \<Rightarrow> exn + string" where
  "extract_text_from_docx f = (case docx_try f of Inl e \<Rightarrow> Inr [] | Inr text \<Rightarrow> Inr text)"

text \<open>
  \<^verbatim>\<open>extract_text_from_txt\<close>: a \<^verbatim>\<open>UnicodeDecodeError\<close> of the UTF-8 read leads to
  the Latin-1 retry, whose own failure gives the empty string; any other exception of the
  UTF-8 read gives the empty string at once.
\<close>

definition extract_text_from_txt :: "stored_file \<Rightarrow> exn + string" where
  "extract_text_from_txt f =
     (case utf8_text f of
        Inr text \<Rightarrow> Inr (strip text)
      | Inl UnicodeDecodeError \<Rightarrow>
          (case latin1_text f of Inr text \<Rightarrow> Inr (strip text) | Inl e \<Rightarrow> Inr [])
      | Inl e \<Rightarrow> Inr [])"

text \<open>
  \<^verbatim>\<open>os.path.splitext(p)[1]\<close> on a POSIX path: the part of the last path component from
  its last dot on, provided some character other than a dot precedes that dot in the
  component; otherwise the empty string.
\<close>

definition splitext_ext :: "string \<Rightarrow> string" where
  "splitext_ext p =
     (let base = rev (takeWhile (\<lambda>c. c \<noteq> CHR ''/'') (rev p));
          ext = rev (takeWhile (\<lambda>c. c \<noteq> CHR ''.'') (rev base));
          stem = take (length base - length ext - 1) base
      in if CHR ''.'' \<in> set base \<and> (\<exists>c\<in>set stem. c \<noteq> CHR ''.'') then CHR ''.'' # ext else [])"

definition extract_text_from_file :: "filesystem \<Rightarrow> string \<Rightarrow> exn + string" where
  "extract_text_from_file fs filepath =
     (case map_of fs filepath of
        None \<Rightarrow> Inr []
      | Some f \<Rightarrow>
          (let file_extension = lower (splitext_ext filepath) in
           if file_extension = ''.pdf'' then extract_text_from_pdf f
           else if file_extension = ''.docx'' then extract_text_from_docx f
           else if file_extension \<in> set [''.txt'', ''.doc''] then extract_text_from_txt f
           else Inr []))"

section \<open>The regex fallback (cv\_parser.extract\_basic\_info\_regex)\<close>

text \<open>
  The three patterns of the fallback are sequences of word boundaries and greedy
  repetitions of a character class. \<open>match_here\<close> is Python's backtracking matcher on such
  a sequence at one position: a repetition first takes as many characters as it can and
  gives them back one at a time until the rest of the pattern matches. The second argument
  is the character before the position (for \<^verbatim>\<open>\b\<close>). \<open>re_search\<close> tries the positions
  from left to right and returns the text of the first match.
\<close>

datatype item = Boundary | Rep "char \<Rightarrow> bool" nat "nat option"

definition is_word :: "char option \<Rightarrow> bool" where
  "is_word c = (case c of None \<Rightarrow> False | Some x \<Rightarrow> is_alnum x \<or> x = CHR ''_'')"

definition first_char :: "string \<Rightarrow> char option" where
  "first_char s = (case s of [] \<Rightarrow> None | c # _ \<Rightarrow> Some c)"

definition char_before :: "char option \<Rightarrow> string \<Rightarrow> nat \<Rightarrow> char option" where
  "char_before prev s k = (if k = 0 then prev else Some (s ! (k - 1)))"

definition first_some :: "'a option list \<Rightarrow> 'a option" where
  "first_some xs = (case List.map_filter id xs of [] \<Rightarrow> None | x # _ \<Rightarrow> Some x)"

fun match_here :: "item list \<Rightarrow> char option \<Rightarrow> string \<Rightarrow> string option" where
  "match_here [] prev s = Some []"
| "match_here (Boundary # items) prev s =
     (if is_word prev \<noteq> is_word (first_char s) then match_here items prev s else None)"
| "match_here (Rep cls lo hi # items) prev s =
     (let avail = length (takeWhile cls s);
          most = (case hi of None \<Rightarrow> avail | Some h \<Rightarrow> min h avail)
      in first_some
           (map (\<lambda>k. map_option (\<lambda>m. take k s @ m)
                        (match_here items (char_before prev s k) (drop k s)))
                (rev [lo..<Suc most])))"

fun search_from :: "item list \<Rightarrow> char option \<Rightarrow> string \<Rightarrow> string option" where
  "search_from items prev [] = match_here items prev []"
| "search_from items prev (c # cs) =
     (case match_here items prev (c # cs) of
        Some m \<Rightarrow> Some m
      | None \<Rightarrow> search_from items (Some c) cs)"

definition re_search :: "item list \<Rightarrow> string \<Rightarrow> string option" where
  "re_search items s = search_from items None s"

text \<open>\<^verbatim>\<open>\b[A-Za-z0-9._%+-]+@[A-Za-z0-9.-]+\.[A-Z|a-z]{2,}\b\<close>\<close>

definition email_pattern :: "item list" where
  "email_pattern =
     [Boundary,
      Rep (\<lambda>c. is_alnum c \<or> c \<in> set ''._%+-'') 1 None,
      Rep (\<lambda>c. c = CHR ''@'') 1 (Some 1),
      Rep (\<lambda>c. is_alnum c \<or> c \<in> set ''.-'') 1 None,
      Rep (\<lambda>c. c = CHR ''.'') 1 (Some 1),
      Rep (\<lambda>c. is_upper c \<or> c = CHR ''|'' \<or> is_lower c) 2 None,
      Boundary]"

text \<open>\<^verbatim>\<open>[\+]?[\d\s\-\(\)]{10,}\<close>\<close>

definition phone_pattern :: "item list" where
  "phone_pattern =
     [Rep (\<lambda>c. c = CHR ''+'') 0 (Some 1),
      Rep (\<lambda>c. is_digit c \<or> is_space c \<or> c \<in> set ''-()'') 10 None]"

text \<open>
  The loop over \<^verbatim>\<open>lines[:5]\<close>: the first stripped line that is not empty, has no digit
  and has at least two words; the empty string when there is none.
\<close>

fun potential_name :: "string list \<Rightarrow> string" where
  "potential_name [] = []"
| "potential_name (l # ls) =
     (let line = strip l in
      if line \<noteq> [] \<and> \<not> (\<exists>c\<in>set line. is_digit c) \<and> length (split_ws line) \<ge> 2
      then line else potential_name ls)"

definition opt_str :: "string option \<Rightarrow> json" where
  "opt_str m = (case m of None \<Rightarrow> JNull | Some s \<Rightarrow> JStr s)"

definition extract_basic_info_regex :: "string \<Rightarrow> pydict" where
  "extract_basic_info_regex text =
     (let email_match = re_search email_pattern text;
          phone_match = re_search phone_pattern text;
          name = potential_name (take 5 (split_lines text))
      in [(''email'', opt_str email_match),
          (''phone'', opt_str (map_option strip phone_match)),
          (''name'', if name \<noteq> [] then JStr name else JNull)])"

section \<open>The CV parsing orchestrator (cv\_parser.parse\_cv\_file)\<close>

definition empty_text_profile :: pydict where
  "empty_text_profile =
     [(''text'', JStr []), (''name'', JNull), (''email'', JNull), (''phone'', JNull),
      (''location'', JNull), (''summary'', JNull), (''skills'', JList []),
      (''experience_years'', JInt 0), (''education'', JList []),
      (''work_experience'', JList [])]"

text \<open>
  \<^verbatim>\<open>if not cv_data.get(k) and basic_info.get(k): cv_data[k] = basic_info[k]\<close>
\<close>

definition fill_missing :: "string \<Rightarrow> pydict \<Rightarrow> pydict \<Rightarrow> pydict" where
  "fill_missing k basic_info cv_data =
     (if \<not> truthy (dict_get cv_data k) \<and> truthy (dict_get basic_info k)
      then dict_set cv_data k (dict_get basic_info k) else cv_data)"

text \<open>The part of \<^verbatim>\<open>parse_cv_file\<close> after the text has been extracted and found non-empty.
  The reply is what the completion service answers for this text.\<close>

definition parse_extracted_text :: "ai_reply \<Rightarrow> string \<Rightarrow> pydict" where
  "parse_extracted_text reply cv_text =
     (let cv_data = dict_set (parse_cv_with_ai reply) ''text'' (JStr cv_text) in
      if \<not> truthy (dict_get cv_data ''email'') \<or> \<not> truthy (dict_get cv_data ''name'') then
        (let basic_info = extract_basic_info_regex cv_text in
         fill_missing ''phone'' basic_info
           (fill_missing ''name'' basic_info
             (fill_missing ''email'' basic_info cv_data)))
      else cv_data)"

definition parse_cv_file :: "filesystem \<Rightarrow> ai_reply \<Rightarrow> string \<Rightarrow> exn + pydict" where
  "parse_cv_file fs reply filepath =
     (case extract_text_from_file fs filepath of
        Inl e \<Rightarrow> Inl e
      | Inr cv_text \<Rightarrow>
          if cv_text = [] then Inr empty_text_profile
          else Inr (parse_extracted_text reply cv_text))"

text \<open>\<^verbatim>\<open>parse_cv_text\<close> is an alias of \<^verbatim>\<open>parse_cv_file\<close>.\<close>

definition parse_cv_text :: "filesystem \<Rightarrow> ai_reply \<Rightarrow> string \<Rightarrow> exn + pydict" where
  "parse_cv_text fs reply filepath = parse_cv_file fs reply filepath"

section \<open>Example inputs\<close>

text \<open>
  Stored files used in the examples below: one on which every reader fails, a PDF whose
  second page cannot be extracted, and a file of zero bytes (no PDF or DOCX structure, the
  empty text).
\<close>

definition unreadable_file :: stored_file where
  "unreadable_file =
     \<lparr>pdf_pages = Inl OtherException, docx_paragraphs = Inl OtherException,
      utf8_text = Inl UnicodeDecodeError, latin1_text = Inl OSError\<rparr>"

definition damaged_pdf :: stored_file where
  "damaged_pdf =
     \<lparr>pdf_pages = Inr [Inr ''Jane Doe'', Inl OtherException],
      docx_paragraphs = Inl OtherException,
      utf8_text = Inl UnicodeDecodeError, latin1_text = Inr ''%PDF''\<rparr>"

definition zero_byte_file :: stored_file where
  "zero_byte_file =
     \<lparr>pdf_pages = Inl OtherException, docx_paragraphs = Inl OtherException,
      utf8_text = Inr [], latin1_text = Inr []\<rparr>"

text \<open>A plain text file with the given content.\<close>

definition text_file :: "string \<Rightarrow> stored_file" where
  "text_file t = \<lparr>pdf_pages = Inl OtherException, docx_paragraphs = Inl OtherException,
      utf8_text = Inr t, latin1_text = Inr t\<rparr>"

section \<open>The candidate store and the processing ledger (models.py)\<close>

text \<open>
  The rows of the tables \<^verbatim>\<open>Candidate\<close>, \<^verbatim>\<open>EmailLog\<close> and \<^verbatim>\<open>WhatsAppLog\<close>, with the
  columns that the channel handlers read or write. A column holds the Python value that
  was assigned to it, \<open>JNull\<close> for \<^verbatim>\<open>None\<close>. Times are clock readings.
\<close>

record candidate =
  cand_id :: nat
  name :: json
  email :: json
  phone :: json
  location :: json
  cv_filename :: json
  cv_text :: json
  skills :: json
  experience_years :: json
  education :: json
  work_experience :: json
  summary :: json
  source :: string
  source_reference :: string
  last_updated :: nat

record email_log =
  sender_email :: string
  subject :: string
  el_candidate_id :: "nat option"
  el_status :: string
  el_error_message :: "exn option"

record whatsapp_log =
  phone_number :: string
  message_id :: string
  wl_candidate_id :: "nat option"
  wl_status :: string
  wl_error_message :: "exn option"

record db =
  candidates :: "candidate list"
  email_logs :: "email_log list"
  whatsapp_logs :: "whatsapp_log list"

text \<open>
  The fixed texts that the handlers send are named rather than spelled out.
\<close>

datatype reply_text =
    RejectionMsg
  | RequestMsg
  | ConfirmationMsg
  | DownloadErrorMsg
  | NotCvFileMsg
  | WelcomeMsg

datatype outgoing =
    EmailReply string string reply_text
  | WhatsAppMessage string reply_text

text \<open>
  The world a handler runs in: the committed database, the session of the current
  application context (its view of the database with the changes not yet committed, and
  whether a failed flush has left it waiting for a rollback), every state that has been
  committed so far in order, the upload folder, and the messages handed to the mail relay
  or the chat API. \<^verbatim>\<open>send_reply\<close> and \<^verbatim>\<open>send_message\<close> catch every transport
  failure themselves and the handlers ignore their result, so a send is recorded as such.
\<close>

record world =
  committed :: db
  session :: db
  inactive :: bool
  history :: "db list"
  uploads :: filesystem
  sent :: "outgoing list"

text \<open>
  What the outside answers during one invocation of a handler: the value of the
  environment variable \<^verbatim>\<open>FILTER_EU_ONLY\<close>, the clock (\<^verbatim>\<open>datetime.utcnow()\<close> and the
  formatted \<^verbatim>\<open>strftime\<close> prefix), werkzeug's \<^verbatim>\<open>secure_filename\<close>, the content that
  \<^verbatim>\<open>download_media\<close> returns (\<open>None\<close> when it returns \<^verbatim>\<open>None\<close> or empty content,
  which \<^verbatim>\<open>if file_content\<close> treats alike), and the reply of the completion service.
\<close>

record env =
  filter_eu_only :: "string option"
  now :: nat
  timestamp :: string
  secure_filename :: "string \<Rightarrow> string"
  download_media :: "stored_file option"
  ai_service :: ai_reply

datatype outcome = Returned | Raised exn

subsection \<open>The session (Flask-SQLAlchemy)\<close>

text \<open>
  Entering \<^verbatim>\<open>with app.app_context()\<close> gives a fresh session on the committed state;
  leaving it removes the session, which rolls back what was not committed.
\<close>

definition open_context :: "world \<Rightarrow> world" where
  "open_context w = w\<lparr>session := committed w, inactive := False\<rparr>"

definition close_context :: "world \<Rightarrow> world" where
  "close_context w = w\<lparr>session := committed w, inactive := False\<rparr>"

text \<open>
  \<^verbatim>\<open>db.session.commit()\<close>: on a session whose flush has failed it raises; otherwise the
  session's view becomes the committed state.
\<close>

definition commit :: "world \<Rightarrow> exn + world" where
  "commit w =
     (if inactive w then Inl PendingRollbackError
      else Inr (w\<lparr>committed := session w, history := history w @ [session w]\<rparr>))"

definition fresh_id :: "candidate list \<Rightarrow> nat" where
  "fresh_id cs = Suc (fold max (map cand_id cs) 0)"

text \<open>
  \<^verbatim>\<open>db.session.add(candidate); db.session.flush()\<close>: the insert is refused with an
  \<^verbatim>\<open>IntegrityError\<close> when the name or the email is null (\<^verbatim>\<open>nullable=False\<close>) or
  the email is already stored (\<^verbatim>\<open>unique=True\<close>); the failed flush rolls the
  transaction back and leaves the session inactive. Otherwise the row receives its id.
\<close>

definition add_and_flush :: "world \<Rightarrow> candidate \<Rightarrow> (world \<times> exn) + (world \<times> candidate)" where
  "add_and_flush w c =
     (if name c = JNull \<or> email c = JNull \<or> email c \<in> set (map email (candidates (session w)))
      then Inl (w\<lparr>session := committed w, inactive := True\<rparr>, IntegrityError)
      else (let c' = c\<lparr>cand_id := fresh_id (candidates (session w))\<rparr>
            in Inr (w\<lparr>session := (session w)\<lparr>candidates := candidates (session w) @ [c']\<rparr>\<rparr>, c')))"

text \<open>Assignments to the attributes of a row that the session has loaded.\<close>

definition store_candidate :: "world \<Rightarrow> candidate \<Rightarrow> world" where
  "store_candidate w c =
     w\<lparr>session := (session w)\<lparr>candidates :=
          map (\<lambda>x. if cand_id x = cand_id c then c else x) (candidates (session w))\<rparr>\<rparr>"

text \<open>\<^verbatim>\<open>Candidate.query.filter_by(email=e).first()\<close>\<close>

definition candidate_by_email :: "world \<Rightarrow> json \<Rightarrow> candidate option" where
  "candidate_by_email w e = find (\<lambda>c. email c = e) (candidates (session w))"

definition add_email_log :: "world \<Rightarrow> email_log \<Rightarrow> world" where
  "add_email_log w l = w\<lparr>session := (session w)\<lparr>email_logs := email_logs (session w) @ [l]\<rparr>\<rparr>"

definition add_whatsapp_log :: "world \<Rightarrow> whatsapp_log \<Rightarrow> world" where
  "add_whatsapp_log w l =
     w\<lparr>session := (session w)\<lparr>whatsapp_logs := whatsapp_logs (session w) @ [l]\<rparr>\<rparr>"

definition send :: "world \<Rightarrow> outgoing \<Rightarrow> world" where
  "send w m = w\<lparr>sent := sent w @ [m]\<rparr>"

text \<open>\<^verbatim>\<open>os.getenv('FILTER_EU_ONLY', 'false').lower() == 'true'\<close>\<close>

definition filter_enabled :: "env \<Rightarrow> bool" where
  "filter_enabled en =
     (lower (case filter_eu_only en of None \<Rightarrow> ''false'' | Some v \<Rightarrow> v) = ''true'')"

text \<open>
  \<^verbatim>\<open>any(filename.lower().endswith(ext) for ext in ['.pdf', '.doc', '.docx', '.txt'])\<close>
\<close>

definition is_cv_filename :: "string \<Rightarrow> bool" where
  "is_cv_filename filename =
     (\<exists>ext\<in>set [''.pdf'', ''.doc'', ''.docx'', ''.txt'']. endswith (lower filename) ext)"

section \<open>The chat channel handler (whatsapp\_bot.py)\<close>

text \<open>
  An inbound message of the webhook payload: \<^verbatim>\<open>from\<close>, \<^verbatim>\<open>id\<close>, \<^verbatim>\<open>type\<close>, the
  \<^verbatim>\<open>document\<close> entry (its media id and its filename, each possibly absent) and the body
  of the \<^verbatim>\<open>text\<close> entry.
\<close>

record wa_document =
  media_id :: "string option"
  doc_filename :: "string option"

record wa_message =
  wa_from :: string
  wa_id :: string
  wa_type :: string
  wa_doc :: "wa_document option"
  wa_text_body :: "string option"

text \<open>\<^verbatim>\<open>WhatsAppBot.is_eu_phone_number\<close>\<close>

definition whatsapp_is_eu_phone_number :: "string \<Rightarrow> bool" where
  "whatsapp_is_eu_phone_number phone_no =
     (let clean_phone = remove_char CHR ''-'' (remove_char CHR '' '' (remove_char CHR ''+'' phone_no))
      in \<exists>code\<in>set [''44'', ''49'', ''33'', ''39'', ''34'', ''31'', ''32'', ''48'', ''43'',
                       ''45'', ''46'', ''47'', ''41'']. startswith clean_phone code)"

text \<open>\<^verbatim>\<open>WhatsAppLog.query.filter_by(phone_number=..., message_id=...).first()\<close> finds a row.\<close>

definition whatsapp_log_exists :: "world \<Rightarrow> string \<Rightarrow> string \<Rightarrow> bool" where
  "whatsapp_log_exists w from_phone msg_id =
     (\<exists>l\<in>set (whatsapp_logs (session w)). phone_number l = from_phone \<and> message_id l = msg_id)"

text \<open>
  Lines 156 to 193: the lookup of the existing candidate by the parsed email only, then
  the update of the row found or the insert of a new row.
\<close>

definition whatsapp_upsert ::
  "env \<Rightarrow> world \<Rightarrow> string \<Rightarrow> string \<Rightarrow> pydict \<Rightarrow> (world \<times> exn) + (world \<times> candidate)" where
  "whatsapp_upsert en w from_phone cv_file cv_data =
     (let parsed_email = dict_get cv_data ''email'';
          existing_candidate =
            (if truthy parsed_email then candidate_by_email w parsed_email else None)
      in case existing_candidate of
           Some c \<Rightarrow>
             (let c' = c\<lparr>phone := JStr from_phone,
                         cv_filename := JStr cv_file,
                         cv_text := dict_get cv_data ''text'',
                         skills := dict_get_default cv_data ''skills'' (JList []),
                         experience_years := dict_get cv_data ''experience_years'',
                         education := dict_get_default cv_data ''education'' (JList []),
                         work_experience := dict_get_default cv_data ''work_experience'' (JList []),
                         summary := dict_get cv_data ''summary'',
                         last_updated := now en\<rparr>
              in Inr (store_candidate w c', c'))
         | None \<Rightarrow>
             add_and_flush w
               \<lparr>cand_id = 0,
                name = dict_get_default cv_data ''name'' (JStr (''WhatsApp User '' @ from_phone)),
                email = (if truthy parsed_email then parsed_email
                         else JStr (''whatsapp_'' @ from_phone @ ''@temp.com'')),
                phone = JStr from_phone,
                location = dict_get cv_data ''location'',
                cv_filename = JStr cv_file,
                cv_text = dict_get cv_data ''text'',
                skills = dict_get_default cv_data ''skills'' (JList []),
                experience_years = dict_get cv_data ''experience_years'',
                education = dict_get_default cv_data ''education'' (JList []),
                work_experience = dict_get_default cv_data ''work_experience'' (JList []),
                summary = dict_get cv_data ''summary'',
                source = ''whatsapp'',
                source_reference = from_phone,
                last_updated = now en\<rparr>)"

text \<open>Lines 133 to 236: the \<^verbatim>\<open>document\<close> branch.\<close>

definition whatsapp_document ::
  "env \<Rightarrow> world \<Rightarrow> string \<Rightarrow> string \<Rightarrow> wa_document option \<Rightarrow> world \<times> exn option" where
  "whatsapp_document en w from_phone msg_id doc =
     (let filename = (case doc of None \<Rightarrow> ''document''
                      | Some d \<Rightarrow> (case doc_filename d of None \<Rightarrow> ''document'' | Some f \<Rightarrow> f))
      in if is_cv_filename filename then
           (case download_media en of
              Some file_content \<Rightarrow>
                (let cv_file = timestamp en @ secure_filename en filename;
                     filepath = ''uploads/'' @ cv_file;
                     w1 = w\<lparr>uploads := AList.update filepath file_content (uploads w)\<rparr>
                 in case parse_cv_text (uploads w1) (ai_service en) filepath of
                      Inl e \<Rightarrow> (w1, Some e)
                    | Inr cv_data \<Rightarrow>
                        (case whatsapp_upsert en w1 from_phone cv_file cv_data of
                           Inl (w2, e) \<Rightarrow> (w2, Some e)
                         | Inr (w2, cand) \<Rightarrow>
                             (case commit w2 of
                                Inl e \<Rightarrow> (w2, Some e)
                              | Inr w3 \<Rightarrow>
                                  (let w4 = send w3 (WhatsAppMessage from_phone ConfirmationMsg);
                                       w5 = add_whatsapp_log w4
                                              \<lparr>phone_number = from_phone, message_id = msg_id,
                                               wl_candidate_id = Some (cand_id cand),
                                               wl_status = ''success'',
                                               wl_error_message = None\<rparr>
                                   in case commit w5 of
                                        Inl e \<Rightarrow> (w5, Some e)
                                      | Inr w6 \<Rightarrow> (w6, None)))))
            | None \<Rightarrow>
                (let w1 = send w (WhatsAppMessage from_phone DownloadErrorMsg);
                     w2 = add_whatsapp_log w1
                            \<lparr>phone_number = from_phone, message_id = msg_id,
                             wl_candidate_id = None, wl_status = ''download_failed'',
                             wl_error_message = None\<rparr>
                 in case commit w2 of Inl e \<Rightarrow> (w2, Some e) | Inr w3 \<Rightarrow> (w3, None)))
         else (send w (WhatsAppMessage from_phone NotCvFileMsg), None))"

text \<open>Lines 238 to 265: the \<^verbatim>\<open>text\<close> branch.\<close>

definition whatsapp_text ::
  "world \<Rightarrow> string \<Rightarrow> string \<Rightarrow> string option \<Rightarrow> world \<times> exn option" where
  "whatsapp_text w from_phone msg_id body =
     (let text = (case body of None \<Rightarrow> [] | Some t \<Rightarrow> t);
          w1 = (if contains (lower text) ''cv'' \<or> contains (lower text) ''resume''
                    \<or> contains (lower text) ''job''
                then send w (WhatsAppMessage from_phone WelcomeMsg) else w);
          w2 = add_whatsapp_log w1
                 \<lparr>phone_number = from_phone, message_id = msg_id, wl_candidate_id = None,
                  wl_status = ''text_received'', wl_error_message = None\<rparr>
      in case commit w2 of Inl e \<Rightarrow> (w2, Some e) | Inr w3 \<Rightarrow> (w3, None))"

text \<open>The body of the \<^verbatim>\<open>try\<close> block: the world reached, and the exception if one is
  raised.\<close>

definition whatsapp_try :: "env \<Rightarrow> world \<Rightarrow> wa_message \<Rightarrow> world \<times> exn option" where
  "whatsapp_try en w m =
     (let from_phone = wa_from m; msg_id = wa_id m in
      if whatsapp_log_exists w from_phone msg_id then (w, None)
      else if filter_enabled en \<and> \<not> whatsapp_is_eu_phone_number from_phone then
        (let w1 = send w (WhatsAppMessage from_phone RejectionMsg);
             w2 = add_whatsapp_log w1
                    \<lparr>phone_number = from_phone, message_id = msg_id, wl_candidate_id = None,
                     wl_status = ''filtered_non_eu'', wl_error_message = None\<rparr>
         in case commit w2 of Inl e \<Rightarrow> (w2, Some e) | Inr w3 \<Rightarrow> (w3, None))
      else if wa_type m = ''document'' then whatsapp_document en w from_phone msg_id (wa_doc m)
      else if wa_type m = ''text'' then whatsapp_text w from_phone msg_id (wa_text_body m)
      else (w, None))"

text \<open>
  \<^verbatim>\<open>process_whatsapp_message\<close>: the \<^verbatim>\<open>try\<close> block inside a fresh application context;
  the \<^verbatim>\<open>except\<close> clause adds an \<^verbatim>\<open>error\<close> row and commits, and an exception of that
  commit leaves the function.
\<close>

definition process_whatsapp_message :: "env \<Rightarrow> world \<Rightarrow> wa_message \<Rightarrow> world \<times> outcome" where
  "process_whatsapp_message en w m =
     (case whatsapp_try en (open_context w) m of
        (w1, None) \<Rightarrow> (close_context w1, Returned)
      | (w1, Some e) \<Rightarrow>
          (let w2 = add_whatsapp_log w1
                      \<lparr>phone_number = wa_from m, message_id = wa_id m, wl_candidate_id = None,
                       wl_status = ''error'', wl_error_message = Some e\<rparr>
           in case commit w2 of
                Inl e' \<Rightarrow> (close_context w2, Raised e')
              | Inr w3 \<Rightarrow> (close_context w3, Returned)))"

section \<open>The email channel handler (email\_bot.py)\<close>

text \<open>
  A fetched message as the handler reads it: whether it is multipart, its own decoded
  payload, and the parts that \<^verbatim>\<open>msg.walk()\<close> yields, each with its content type, its
  content disposition, its filename, its payload decoded as text and its payload as a
  file.
\<close>

record email_part =
  content_type :: string
  content_disposition :: "string option"
  part_filename :: "string option"
  payload_text :: string
  payload_file :: stored_file

record email_message =
  is_multipart :: bool
  msg_payload_text :: string
  walk :: "email_part list"

text \<open>
  A lazy \<^verbatim>\<open>(.+?)\<close> at the start of the given text: the shortest non-empty prefix without
  a newline after which the rest of the pattern, given as a test on the remaining text,
  matches.
\<close>

fun lazy_until :: "(string \<Rightarrow> bool) \<Rightarrow> string \<Rightarrow> string \<Rightarrow> string option" where
  "lazy_until stop acc [] = None"
| "lazy_until stop acc (c # cs) =
     (if c = CHR 0x0A then None
      else if stop cs then Some (acc @ [c])
      else lazy_until stop (acc @ [c]) cs)"

text \<open>\<^verbatim>\<open>[a-zA-Z0-9._%+-]+@[a-zA-Z0-9.-]+\.[a-zA-Z]{2,}\<close>, the second alternative of the
  sender pattern.\<close>

definition sender_address_pattern :: "item list" where
  "sender_address_pattern =
     [Rep (\<lambda>c. is_alnum c \<or> c \<in> set ''._%+-'') 1 None,
      Rep (\<lambda>c. c = CHR ''@'') 1 (Some 1),
      Rep (\<lambda>c. is_alnum c \<or> c \<in> set ''.-'') 1 None,
      Rep (\<lambda>c. c = CHR ''.'') 1 (Some 1),
      Rep (\<lambda>c. is_upper c \<or> is_lower c) 2 None]"

text \<open>
  \<^verbatim>\<open>re.search(r'<(.+?)>|(address)', sender)\<close>, returning
  \<^verbatim>\<open>group(1) or group(2)\<close>: at each position from the left the bracketed alternative
  is tried first, then the bare address.
\<close>

fun search_sender :: "string \<Rightarrow> string option" where
  "search_sender [] = None"
| "search_sender (c # cs) =
     (case (if c = CHR ''<'' then lazy_until (\<lambda>r. startswith r ''>'') [] cs else None) of
        Some g \<Rightarrow> Some g
      | None \<Rightarrow>
          (case match_here sender_address_pattern None (c # cs) of
             Some m \<Rightarrow> Some m
           | None \<Rightarrow> search_sender cs))"

text \<open>\<^verbatim>\<open>EmailBot.extract_email_info\<close>; the name pattern is \<^verbatim>\<open>^(.+?)\s*<\<close>.\<close>

definition extract_email_info :: "string \<Rightarrow> string \<times> string" where
  "extract_email_info sender =
     (let email_addr = (case search_sender sender of Some a \<Rightarrow> a | None \<Rightarrow> sender);
          sender_name =
            (case lazy_until (\<lambda>r. startswith (dropWhile is_space r) ''<'') [] sender of
               Some n \<Rightarrow> strip n
             | None \<Rightarrow> takeWhile (\<lambda>c. c \<noteq> CHR ''@'') email_addr)
      in (sender_name, email_addr))"

text \<open>\<^verbatim>\<open>EmailBot.is_eu_phone_number\<close>: some listed calling code occurs in the text.\<close>

definition email_is_eu_phone_number :: "string \<Rightarrow> bool" where
  "email_is_eu_phone_number text =
     (\<exists>code\<in>set [''+44'', ''+49'', ''+33'', ''+39'', ''+34'', ''+31'', ''+32'', ''+48'',
                   ''+43'', ''+45'', ''+46'', ''+47'', ''+41'']. contains text code)"

text \<open>\<^verbatim>\<open>EmailBot.extract_cv_attachments\<close>: the secured filename and the content of each
  attachment whose filename has an allowed extension.\<close>

definition extract_cv_attachments :: "env \<Rightarrow> email_message \<Rightarrow> (string \<times> stored_file) list" where
  "extract_cv_attachments en msg =
     List.map_filter
       (\<lambda>part. if content_disposition part = Some ''attachment'' then
                  (case part_filename part of
                     None \<Rightarrow> None
                   | Some filename \<Rightarrow>
                       if filename \<noteq> [] \<and> is_cv_filename filename
                       then Some (secure_filename en filename, payload_file part) else None)
                else None)
       (walk msg)"

text \<open>The text of the message body, lines 134 to 141.\<close>

definition email_body_text :: "email_message \<Rightarrow> string" where
  "email_body_text msg =
     (if is_multipart msg
      then concat (map payload_text (filter (\<lambda>part. content_type part = ''text/plain'') (walk msg)))
      else msg_payload_text msg)"

text \<open>\<^verbatim>\<open>EmailLog.query.filter_by(sender_email=..., subject=...).first()\<close> finds a row.\<close>

definition email_log_exists :: "world \<Rightarrow> string \<Rightarrow> string \<Rightarrow> bool" where
  "email_log_exists w sender subj =
     (\<exists>l\<in>set (email_logs (session w)). sender_email l = sender \<and> subject l = subj)"

text \<open>
  Lines 195 to 234: with an attachment, the first one is saved and parsed, and the
  existing row is updated or a new row is inserted; without one the existing row is kept.
\<close>

definition email_upsert ::
  "env \<Rightarrow> world \<Rightarrow> string \<Rightarrow> string \<Rightarrow> string \<Rightarrow> candidate option
     \<Rightarrow> (string \<times> stored_file) list \<Rightarrow> (world \<times> exn) + (world \<times> candidate option)" where
  "email_upsert en w sender_name sender_email_clean subj existing_candidate attachments =
     (case attachments of
        [] \<Rightarrow> Inr (w, existing_candidate)
      | attachment # _ \<Rightarrow>
          (let cv_file = timestamp en @ fst attachment;
               filepath = ''uploads/'' @ cv_file;
               w1 = w\<lparr>uploads := AList.update filepath (snd attachment) (uploads w)\<rparr>
           in case parse_cv_text (uploads w1) (ai_service en) filepath of
                Inl e \<Rightarrow> Inl (w1, e)
              | Inr cv_data \<Rightarrow>
                  (case existing_candidate of
                     Some c \<Rightarrow>
                       (let c' = c\<lparr>cv_filename := JStr cv_file,
                                   cv_text := dict_get cv_data ''text'',
                                   skills := dict_get_default cv_data ''skills'' (JList []),
                                   experience_years := dict_get cv_data ''experience_years'',
                                   education := dict_get_default cv_data ''education'' (JList []),
                                   work_experience :=
                                     dict_get_default cv_data ''work_experience'' (JList []),
                                   summary := dict_get cv_data ''summary'',
                                   last_updated := now en\<rparr>
                        in Inr (store_candidate w1 c', Some c'))
                   | None \<Rightarrow>
                       (case add_and_flush w1
                               \<lparr>cand_id = 0,
                                name = dict_get_default cv_data ''name'' (JStr sender_name),
                                email = JStr sender_email_clean,
                                phone = dict_get cv_data ''phone'',
                                location = dict_get cv_data ''location'',
                                cv_filename = JStr cv_file,
                                cv_text = dict_get cv_data ''text'',
                                skills = dict_get_default cv_data ''skills'' (JList []),
                                experience_years = dict_get cv_data ''experience_years'',
                                education = dict_get_default cv_data ''education'' (JList []),
                                work_experience =
                                  dict_get_default cv_data ''work_experience'' (JList []),
                                summary = dict_get cv_data ''summary'',
                                source = ''email'',
                                source_reference = subj,
                                last_updated = now en\<rparr> of
                          Inl (w2, e) \<Rightarrow> Inl (w2, e)
                        | Inr (w2, c') \<Rightarrow> Inr (w2, Some c')))))"

text \<open>The body of the \<^verbatim>\<open>try\<close> block of \<^verbatim>\<open>process_email\<close>.\<close>

definition email_try ::
  "env \<Rightarrow> world \<Rightarrow> email_message \<Rightarrow> string \<Rightarrow> string \<Rightarrow> world \<times> exn option" where
  "email_try en w msg sender subj =
     (if email_log_exists w sender subj then (w, None)
      else
        (let sender_name = fst (extract_email_info sender);
             sender_email_clean = snd (extract_email_info sender);
             existing_candidate = candidate_by_email w (JStr sender_email_clean);
             email_body = email_body_text msg
         in if filter_enabled en \<and> \<not> email_is_eu_phone_number email_body then
              (let w1 = send w (EmailReply sender_email_clean subj RejectionMsg);
                   w2 = add_email_log w1
                          \<lparr>sender_email = sender_email_clean, subject = subj,
                           el_candidate_id = None, el_status = ''filtered_non_eu'',
                           el_error_message = None\<rparr>
               in case commit w2 of Inl e \<Rightarrow> (w2, Some e) | Inr w3 \<Rightarrow> (w3, None))
            else
              (let attachments = extract_cv_attachments en msg in
               if attachments = [] \<and> existing_candidate = None then
                 (let w1 = send w (EmailReply sender_email_clean subj RequestMsg);
                      w2 = add_email_log w1
                             \<lparr>sender_email = sender_email_clean, subject = subj,
                              el_candidate_id = None, el_status = ''cv_requested'',
                              el_error_message = None\<rparr>
                  in case commit w2 of Inl e \<Rightarrow> (w2, Some e) | Inr w3 \<Rightarrow> (w3, None))
               else
                 (case email_upsert en w sender_name sender_email_clean subj
                         existing_candidate attachments of
                    Inl (w1, e) \<Rightarrow> (w1, Some e)
                  | Inr (w1, cand) \<Rightarrow>
                      (case commit w1 of
                         Inl e \<Rightarrow> (w1, Some e)
                       | Inr w2 \<Rightarrow>
                           (let w3 = (if cand \<noteq> None
                                      then send w2 (EmailReply sender_email_clean subj
                                                      ConfirmationMsg)
                                      else w2);
                                w4 = add_email_log w3
                                       \<lparr>sender_email = sender_email_clean, subject = subj,
                                        el_candidate_id = map_option cand_id cand,
                                        el_status = ''success'', el_error_message = None\<rparr>
                            in case commit w4 of
                                 Inl e \<Rightarrow> (w4, Some e)
                               | Inr w5 \<Rightarrow> (w5, None)))))))"

text \<open>
  \<^verbatim>\<open>process_email\<close>: the \<^verbatim>\<open>except\<close> clause logs under the sender string as it was
  passed in.
\<close>

definition process_email ::
  "env \<Rightarrow> world \<Rightarrow> email_message \<Rightarrow> string \<Rightarrow> string \<Rightarrow> world \<times> outcome" where
  "process_email en w msg sender subj =
     (case email_try en (open_context w) msg sender subj of
        (w1, None) \<Rightarrow> (close_context w1, Returned)
      | (w1, Some e) \<Rightarrow>
          (let w2 = add_email_log w1
                      \<lparr>sender_email = sender, subject = subj, el_candidate_id = None,
                       el_status = ''error'', el_error_message = Some e\<rparr>
           in case commit w2 of
                Inl e' \<Rightarrow> (close_context w2, Raised e')
              | Inr w3 \<Rightarrow> (close_context w3, Returned)))"

text \<open>An empty store, and a world with nothing committed, uploaded or sent.\<close>

definition empty_db :: db where
  "empty_db = \<lparr>candidates = [], email_logs = [], whatsapp_logs = []\<rparr>"

definition empty_world :: world where
  "empty_world =
     \<lparr>committed = empty_db, session = empty_db, inactive = False, history = [],
      uploads = [], sent = []\<rparr>"

text \<open>
  An environment with the given value of \<^verbatim>\<open>FILTER_EU_ONLY\<close>, clock reading, filename
  prefix, downloaded content and service reply, in which \<^verbatim>\<open>secure_filename\<close> leaves the
  (already safe) filenames of the examples as they are.
\<close>

definition example_env ::
  "string option \<Rightarrow> nat \<Rightarrow> string \<Rightarrow> stored_file option \<Rightarrow> ai_reply \<Rightarrow> env" where
  "example_env flt t stamp content reply =
     \<lparr>filter_eu_only = flt, now = t, timestamp = stamp, secure_filename = (\<lambda>f. f),
      download_media = content, ai_service = reply\<rparr>"

definition doc_message :: "string \<Rightarrow> string \<Rightarrow> string \<Rightarrow> wa_message" where
  "doc_message sender_phone msg_id fname =
     \<lparr>wa_from = sender_phone, wa_id = msg_id, wa_type = ''document'',
      wa_doc = Some \<lparr>media_id = Some ''media-1'', doc_filename = Some fname\<rparr>,
      wa_text_body = None\<rparr>"

definition text_message :: "string \<Rightarrow> string \<Rightarrow> string \<Rightarrow> wa_message" where
  "text_message sender_phone msg_id body =
     \<lparr>wa_from = sender_phone, wa_id = msg_id, wa_type = ''text'', wa_doc = None,
      wa_text_body = Some body\<rparr>"

text \<open>A multipart mail with a plain-text body and one attached text file.\<close>

definition mail_with_cv :: "string \<Rightarrow> string \<Rightarrow> string \<Rightarrow> email_message" where
  "mail_with_cv body fname cv_content =
     \<lparr>is_multipart = True, msg_payload_text = [],
      walk = [\<lparr>content_type = ''multipart/mixed'', content_disposition = None,
                part_filename = None, payload_text = [], payload_file = unreadable_file\<rparr>,
              \<lparr>content_type = ''text/plain'', content_disposition = None,
                part_filename = None, payload_text = body, payload_file = text_file body\<rparr>,
              \<lparr>content_type = ''text/plain'', content_disposition = Some ''attachment'',
                part_filename = Some fname, payload_text = cv_content,
                payload_file = text_file cv_content\<rparr>]\<rparr>"

text \<open>A mail without attachment.\<close>

definition plain_mail :: "string \<Rightarrow> email_message" where
  "plain_mail body = \<lparr>is_multipart = False, msg_payload_text = body, walk = []\<rparr>"

text \<open>
  A service reply that names the candidate and gives no email, and a text CV that holds
  no email address either.
\<close>

definition jane_reply :: ai_reply where
  "jane_reply = Reply (JObj [(''name'', JStr ''Jane Doe''), (''email'', JNull)])"

definition jane_cv :: stored_file where
  "jane_cv = text_file ''Jane Doe''"


text \<open>
  The outside world during a first and during a later invocation: the filter is off, the
  download yields that CV and the service gives that reply.
\<close>

definition first_env :: env where
  "first_env = example_env None 1 ''a_'' (Some jane_cv) jane_reply"

definition second_env :: env where
  "second_env = example_env None 2 ''b_'' (Some jane_cv) jane_reply"

text \<open>
  The same mail, from a sender with a display name, handled twice: the store after the
  first and after the second invocation of \<^verbatim>\<open>process_email\<close>.
\<close>

definition jane_mail :: email_message where
  "jane_mail = mail_with_cv ''Hello'' ''cv.txt'' ''Jane Doe''"

definition after_first_mail :: "world \<times> outcome" where
  "after_first_mail =
     process_email first_env empty_world jane_mail
       ''Jane Doe <jane@x.com>'' ''Application''"

definition after_second_mail :: "world \<times> outcome" where
  "after_second_mail =
     process_email second_env (fst after_first_mail) jane_mail
       ''Jane Doe <jane@x.com>'' ''Application''"

text \<open>
  Two CV documents without email from the same phone number, with different message ids.
\<close>

definition after_first_cv :: "world \<times> outcome" where
  "after_first_cv =
     process_whatsapp_message first_env empty_world
       (doc_message ''447700900123'' ''wamid.1'' ''cv.txt'')"

definition after_second_cv :: "world \<times> outcome" where
  "after_second_cv =
     process_whatsapp_message second_env
       (fst after_first_cv) (doc_message ''447700900123'' ''wamid.2'' ''cv.txt'')"

text \<open>A document that is not a CV file, delivered once and delivered again.\<close>

definition after_photo :: "world \<times> outcome" where
  "after_photo =
     process_whatsapp_message first_env empty_world
       (doc_message ''447700900123'' ''wamid.3'' ''photo.png'')"

definition after_photo_again :: "world \<times> outcome" where
  "after_photo_again =
     process_whatsapp_message second_env
       (fst after_photo) (doc_message ''447700900123'' ''wamid.3'' ''photo.png'')"

text \<open>An environment in which the eligibility filter is switched on.\<close>

definition filtering_env :: env where
  "filtering_env = example_env (Some ''True'') 1 ''a_'' (Some jane_cv) jane_reply"

text \<open>
  A store that already holds one candidate, with a phone number and no skills, and a
  service reply for a CV of that candidate that gives the email and one skill and leaves
  name, phone and location null.
\<close>

definition jane_record :: candidate where
  "jane_record =
     \<lparr>cand_id = 1, name = JStr ''Jane Doe'', email = JStr ''jane@x.com'',
      phone = JStr ''+1-555-0100'', location = JStr ''Leeds'', cv_filename = JNull,
      cv_text = JNull, skills = JList [], experience_years = JInt 0, education = JList [],
      work_experience = JList [], summary = JNull, source = ''manual'',
      source_reference = [], last_updated = 0\<rparr>"

definition world_with_jane :: world where
  "world_with_jane =
     \<lparr>committed = \<lparr>candidates = [jane_record], email_logs = [], whatsapp_logs = []\<rparr>,
      session = \<lparr>candidates = [jane_record], email_logs = [], whatsapp_logs = []\<rparr>,
      inactive = False, history = [], uploads = [], sent = []\<rparr>"

definition go_reply :: ai_reply where
  "go_reply =
     Reply (JObj [(''name'', JNull), (''email'', JStr ''jane@x.com''), (''phone'', JNull),
                  (''location'', JNull), (''skills'', JList [JStr ''Go''])])"

definition go_env :: env where
  "go_env = example_env None 5 ''c_'' (Some jane_cv) go_reply"

definition after_jane_cv_by_chat :: "world \<times> outcome" where
  "after_jane_cv_by_chat =
     process_whatsapp_message go_env world_with_jane
       (doc_message ''447700900123'' ''wamid.5'' ''cv.txt'')"

text \<open>The profile that the orchestrator returns for that CV and that reply.\<close>

definition go_profile :: pydict where
  "go_profile =
     [(''name'', JStr ''Jane Doe''), (''email'', JStr ''jane@x.com''), (''phone'', JNull),
      (''location'', JNull), (''skills'', JList [JStr ''Go'']), (''experience_years'', JInt 0),
      (''text'', JStr ''Jane Doe'')]"

text \<open>
  A service reply without a \<^verbatim>\<open>name\<close> entry and a CV text in which the fallback finds no
  name, submitted on each channel; and a reply whose name is null.
\<close>

definition nameless_reply :: ai_reply where
  "nameless_reply = Reply (JObj [(''email'', JStr ''jane@x.com'')])"

definition nameless_cv :: stored_file where
  "nameless_cv = text_file ''cv 2024''"

definition nameless_profile :: pydict where
  "nameless_profile =
     [(''email'', JStr ''jane@x.com''), (''experience_years'', JInt 0),
      (''text'', JStr ''cv 2024'')]"

definition nameless_env :: env where
  "nameless_env = example_env None 7 ''d_'' (Some nameless_cv) nameless_reply"

definition after_nameless_cv_by_chat :: "world \<times> outcome" where
  "after_nameless_cv_by_chat =
     process_whatsapp_message nameless_env empty_world
       (doc_message ''447700900123'' ''wamid.7'' ''cv.txt'')"

definition after_nameless_cv_by_mail :: "world \<times> outcome" where
  "after_nameless_cv_by_mail =
     process_email nameless_env empty_world (mail_with_cv ''Hello'' ''cv.txt'' ''cv 2024'')
       ''Jane Doe <jane@x.com>'' ''Application''"

definition null_name_profile :: pydict where
  "null_name_profile =
     [(''name'', JNull), (''email'', JStr ''jane@x.com''), (''experience_years'', JInt 0),
      (''text'', JStr ''cv 2024'')]"

section \<open>Properties of the AI structured parser\<close>

lemma search_digits_no_digit:
  "\<forall>c\<in>set s. \<not> is_digit c \<Longrightarrow> search_digits s = None"
  by (simp add: search_digits_def)

lemma search_digits_first_run:
  assumes "\<forall>c\<in>set pre. \<not> is_digit c" and "ds \<noteq> []" and "\<forall>c\<in>set ds. is_digit c"
    and "rest = [] \<or> \<not> is_digit (hd rest)"
  shows "search_digits (pre @ ds @ rest) = Some ds"
proof -
  have d: "dropWhile (\<lambda>c. \<not> is_digit c) (pre @ ds @ rest) = ds @ rest"
    using assms(1,2,3) by (cases ds) (simp_all add: dropWhile_append)
  have t: "takeWhile is_digit (ds @ rest) = ds"
    using assms(3,4) by (cases rest) (simp_all add: takeWhile_append)
  show ?thesis using d t assms(2) by (simp add: search_digits_def)
qed

lemma map_of_ensure_list:
  "map_of (ensure_list k d) k' =
     (if k' = k \<and> (\<exists>v. map_of d k = Some v \<and> \<not> isinstance_list v)
      then Some (JList []) else map_of d k')"
  by (auto simp add: ensure_list_def dict_get_default_def dict_set_def update_conv'
      split: option.splits)

lemma map_of_clean_other:
  "k \<noteq> ''experience_years'' \<Longrightarrow> map_of (clean_experience_years d) k = map_of d k"
  by (auto simp add: clean_experience_years_def dict_set_def update_conv' Let_def
      split: json.splits option.splits)

lemma map_of_clean_str:
  "map_of d ''experience_years'' = Some (JStr s) \<Longrightarrow>
   map_of (clean_experience_years d) ''experience_years'' =
     Some (JInt (case search_digits s of Some m \<Rightarrow> int_of_digits m | None \<Rightarrow> 0))"
  by (auto simp add: clean_experience_years_def dict_set_def dict_get_def update_conv' Let_def
      search_digits_def split: json.splits option.splits)

lemma map_of_clean_int:
  "map_of d ''experience_years'' = Some (JInt n) \<Longrightarrow>
   map_of (clean_experience_years d) ''experience_years'' = Some (JInt n)"
  by (simp add: clean_experience_years_def dict_get_def)

lemma map_of_clean_zero:
  "map_of d ''experience_years'' = None \<or> map_of d ''experience_years'' = Some JNull
   \<or> map_of d ''experience_years'' = Some (JFloat r)
   \<or> map_of d ''experience_years'' = Some (JList xs)
   \<or> map_of d ''experience_years'' = Some (JObj kvs) \<Longrightarrow>
   map_of (clean_experience_years d) ''experience_years'' = Some (JInt 0)"
  by (auto simp add: clean_experience_years_def dict_get_def dict_set_def update_conv')

lemma map_of_ensure3_ey:
  "map_of (ensure_list ''work_experience'' (ensure_list ''education'' (ensure_list ''skills'' d)))
     ''experience_years'' = map_of d ''experience_years''"
  by (simp add: map_of_ensure_list)

lemma map_of_parse_ey:
  "map_of (parse_cv_with_ai (Reply (JObj d))) ''experience_years'' =
     map_of (clean_experience_years
        (ensure_list ''work_experience'' (ensure_list ''education'' (ensure_list ''skills'' d))))
        ''experience_years''"
  by (simp add: parse_cv_with_ai_def)

lemma map_of_parse_list_field:
  assumes "k \<in> {''skills'', ''education'', ''work_experience''}"
  shows "map_of (parse_cv_with_ai (Reply (JObj d))) k =
     (case map_of d k of None \<Rightarrow> None
      | Some v \<Rightarrow> if isinstance_list v then Some v else Some (JList []))"
  using assms
  by (auto simp add: parse_cv_with_ai_def map_of_clean_other map_of_ensure_list
      split: option.splits)

text \<open>
  C6 (as amended). For every dictionary \<open>d\<close> decoded from the service response, the
  normalized profile \<open>parse_cv_with_ai (Reply (JObj d))\<close> has \<open>experience_years\<close> equal to
  0 for a string without a digit, to the value of the first run of digits for a string that
  has one, to the integer itself for an integer, and to 0 when the field is absent, null, a
  float, a list or an object. Each of \<open>skills\<close>, \<open>education\<close> and \<open>work_experience\<close> is
  replaced by the empty list when it is present with a value that is not a list, and kept
  when it is a list; an omitted field stays omitted in the result (a reader that supplies
  the empty-list default, as the channel handlers do, reads the empty list). A failure of
  the service yields the default profile.
\<close>

theorem parse_cv_with_ai_normalization:
  "(map_of d ''experience_years'' = Some (JStr s) \<and> (\<forall>c\<in>set s. \<not> is_digit c)
      \<longrightarrow> map_of (parse_cv_with_ai (Reply (JObj d))) ''experience_years'' = Some (JInt 0))
   \<and> (map_of d ''experience_years'' = Some (JStr (pre @ ds @ rest))
        \<and> (\<forall>c\<in>set pre. \<not> is_digit c) \<and> ds \<noteq> [] \<and> (\<forall>c\<in>set ds. is_digit c)
        \<and> (rest = [] \<or> \<not> is_digit (hd rest))
      \<longrightarrow> map_of (parse_cv_with_ai (Reply (JObj d))) ''experience_years''
            = Some (JInt (int_of_digits ds)))
   \<and> (map_of d ''experience_years'' = Some (JInt n)
      \<longrightarrow> map_of (parse_cv_with_ai (Reply (JObj d))) ''experience_years'' = Some (JInt n))
   \<and> (map_of d ''experience_years'' = None \<or> map_of d ''experience_years'' = Some JNull
        \<or> map_of d ''experience_years'' = Some (JFloat r)
        \<or> map_of d ''experience_years'' = Some (JList xs)
        \<or> map_of d ''experience_years'' = Some (JObj kvs)
      \<longrightarrow> map_of (parse_cv_with_ai (Reply (JObj d))) ''experience_years'' = Some (JInt 0))
   \<and> (k \<in> {''skills'', ''education'', ''work_experience''} \<longrightarrow>
        (\<forall>v. map_of d k = Some v \<and> \<not> isinstance_list v
            \<longrightarrow> map_of (parse_cv_with_ai (Reply (JObj d))) k = Some (JList []))
      \<and> (\<forall>ys. map_of d k = Some (JList ys)
            \<longrightarrow> map_of (parse_cv_with_ai (Reply (JObj d))) k = Some (JList ys))
      \<and> (map_of d k = None
            \<longrightarrow> map_of (parse_cv_with_ai (Reply (JObj d))) k = None
              \<and> dict_get_default (parse_cv_with_ai (Reply (JObj d))) k (JList []) = JList []))
   \<and> parse_cv_with_ai ServiceFails = default_profile"
proof -
  have c1: "map_of d ''experience_years'' = Some (JStr s) \<and> (\<forall>c\<in>set s. \<not> is_digit c)
      \<longrightarrow> map_of (parse_cv_with_ai (Reply (JObj d))) ''experience_years'' = Some (JInt 0)"
    unfolding map_of_parse_ey
    by (simp add: map_of_clean_str map_of_ensure3_ey search_digits_no_digit)
  have c2: "map_of d ''experience_years'' = Some (JStr (pre @ ds @ rest))
        \<and> (\<forall>c\<in>set pre. \<not> is_digit c) \<and> ds \<noteq> [] \<and> (\<forall>c\<in>set ds. is_digit c)
        \<and> (rest = [] \<or> \<not> is_digit (hd rest))
      \<longrightarrow> map_of (parse_cv_with_ai (Reply (JObj d))) ''experience_years''
            = Some (JInt (int_of_digits ds))"
    unfolding map_of_parse_ey
    by (simp add: map_of_clean_str map_of_ensure3_ey search_digits_first_run)
  have c3: "map_of d ''experience_years'' = Some (JInt n)
      \<longrightarrow> map_of (parse_cv_with_ai (Reply (JObj d))) ''experience_years'' = Some (JInt n)"
    unfolding map_of_parse_ey by (simp add: map_of_clean_int map_of_ensure3_ey)
  have c4: "map_of d ''experience_years'' = None \<or> map_of d ''experience_years'' = Some JNull
        \<or> map_of d ''experience_years'' = Some (JFloat r)
        \<or> map_of d ''experience_years'' = Some (JList xs)
        \<or> map_of d ''experience_years'' = Some (JObj kvs)
      \<longrightarrow> map_of (parse_cv_with_ai (Reply (JObj d))) ''experience_years'' = Some (JInt 0)"
    unfolding map_of_parse_ey
    using map_of_clean_zero [of _ r xs kvs] by (simp add: map_of_ensure3_ey)
  have c5: "k \<in> {''skills'', ''education'', ''work_experience''} \<longrightarrow>
        (\<forall>v. map_of d k = Some v \<and> \<not> isinstance_list v
            \<longrightarrow> map_of (parse_cv_with_ai (Reply (JObj d))) k = Some (JList []))
      \<and> (\<forall>ys. map_of d k = Some (JList ys)
            \<longrightarrow> map_of (parse_cv_with_ai (Reply (JObj d))) k = Some (JList ys))
      \<and> (map_of d k = None
            \<longrightarrow> map_of (parse_cv_with_ai (Reply (JObj d))) k = None
              \<and> dict_get_default (parse_cv_with_ai (Reply (JObj d))) k (JList []) = JList [])"
    by (auto simp add: map_of_parse_list_field dict_get_default_def simp del: insert_iff)
  have c6: "parse_cv_with_ai ServiceFails = default_profile"
    by (simp add: parse_cv_with_ai_def)
  show ?thesis using c1 c2 c3 c4 c5 c6 by (intro conjI)
qed

theorem parse_cv_with_ai_normalization_witness:
  "map_of (parse_cv_with_ai (Reply (JObj [(''experience_years'', JStr ''five'')])))
     ''experience_years'' = Some (JInt 0)
   \<and> map_of (parse_cv_with_ai (Reply (JObj [(''experience_years'', JStr ''5 years'')])))
     ''experience_years'' = Some (JInt 5)
   \<and> map_of (parse_cv_with_ai (Reply (JObj [(''experience_years'', JInt 7)])))
     ''experience_years'' = Some (JInt 7)
   \<and> map_of (parse_cv_with_ai (Reply (JObj [(''name'', JStr ''Jane'')])))
     ''experience_years'' = Some (JInt 0)
   \<and> map_of (parse_cv_with_ai (Reply (JObj [(''skills'', JStr ''Go'')]))) ''skills''
       = Some (JList [])
   \<and> map_of (parse_cv_with_ai (Reply (JObj [(''skills'', JList [JStr ''Go''])]))) ''skills''
       = Some (JList [JStr ''Go''])
   \<and> map_of (parse_cv_with_ai (Reply (JObj [(''name'', JStr ''Jane'')]))) ''skills'' = None"
  using
    parse_cv_with_ai_normalization
      [of "[(''experience_years'', JStr ''five'')]" "''five''" "[]" "[]" "[]" 0 0 "[]" "[]" "[]"]
    parse_cv_with_ai_normalization
      [of "[(''experience_years'', JStr ''5 years'')]" "[]" "[]" "''5''" "'' years''" 0 0 "[]" "[]" "[]"]
    parse_cv_with_ai_normalization
      [of "[(''experience_years'', JInt 7)]" "[]" "[]" "[]" "[]" 7 0 "[]" "[]" "[]"]
    parse_cv_with_ai_normalization
      [of "[(''name'', JStr ''Jane'')]" "[]" "[]" "[]" "[]" 0 0 "[]" "[]" "''skills''"]
    parse_cv_with_ai_normalization
      [of "[(''skills'', JStr ''Go'')]" "[]" "[]" "[]" "[]" 0 0 "[]" "[]" "''skills''"]
    parse_cv_with_ai_normalization
      [of "[(''skills'', JList [JStr ''Go''])]" "[]" "[]" "[]" "[]" 0 0 "[]" "[]" "''skills''"]
  by (simp add: is_digit_def int_of_digits_def digit_val_def)

text \<open>
  C6 as stated fails where the response omits a list field: the result of the
  normalization then has no \<open>skills\<close> entry at all, rather than the empty list.
\<close>

theorem omitted_skills_counterexample:
  "map_of (parse_cv_with_ai (Reply (JObj [(''name'', JStr ''Jane Doe'')]))) ''skills''
     \<noteq> Some (JList [])"
  by (simp add: parse_cv_with_ai_def ensure_list_def clean_experience_years_def
      dict_get_def dict_get_default_def dict_set_def)

section \<open>Properties of the document text extractor\<close>

lemma concat_pages_raises:
  "Inl e \<in> set pages \<Longrightarrow> \<exists>e'. concat_pages pages acc = Inl e'"
proof (induction pages arbitrary: acc)
  case Nil
  then show ?case by simp
next
  case (Cons pg pages)
  then show ?case by (cases pg) auto
qed

lemma extract_text_from_pdf_returns: "\<exists>text. extract_text_from_pdf f = Inr text"
  by (simp add: extract_text_from_pdf_def split: sum.splits)

lemma extract_text_from_docx_returns: "\<exists>text. extract_text_from_docx f = Inr text"
  by (simp add: extract_text_from_docx_def split: sum.splits)

lemma extract_text_from_txt_returns: "\<exists>text. extract_text_from_txt f = Inr text"
  by (simp add: extract_text_from_txt_def split: sum.splits exn.splits)

lemma extract_text_from_file_returns: "\<exists>text. extract_text_from_file fs p = Inr text"
  by (simp add: extract_text_from_file_def Let_def extract_text_from_pdf_returns
      extract_text_from_docx_returns extract_text_from_txt_returns split: option.splits)

lemma extract_text_from_pdf_failure:
  assumes "pdf_pages f = Inl e \<or> (\<exists>pages. pdf_pages f = Inr pages \<and> Inl e \<in> set pages)"
  shows "extract_text_from_pdf f = Inr []"
  using assms
proof
  assume "pdf_pages f = Inl e"
  then show ?thesis by (simp add: extract_text_from_pdf_def pdf_try_def)
next
  assume "\<exists>pages. pdf_pages f = Inr pages \<and> Inl e \<in> set pages"
  then obtain pages where p: "pdf_pages f = Inr pages" and m: "Inl e \<in> set pages" by blast
  from concat_pages_raises [OF m] obtain e' where "concat_pages pages [] = Inl e'" by blast
  with p show ?thesis by (simp add: extract_text_from_pdf_def pdf_try_def)
qed

lemma extract_text_from_txt_failure:
  assumes "(utf8_text f = Inl e \<and> e \<noteq> UnicodeDecodeError)
     \<or> (utf8_text f = Inl UnicodeDecodeError \<and> latin1_text f = Inl e)"
  shows "extract_text_from_txt f = Inr []"
  using assms by (cases e) (auto simp add: extract_text_from_txt_def)

lemma strip_Nil: "strip [] = []" by (simp add: strip_def)

text \<open>
  C5. For every file system and every path, the text extractor returns a string and
  raises nothing. It returns the empty string when the file does not exist, when the
  extension is not one of the supported ones, when reading a PDF or one of its pages
  raises, when reading a DOCX raises, when the UTF-8 read of a text file raises anything
  but a decoding error or the Latin-1 retry raises as well, and when the text file is
  empty.
\<close>

theorem extract_text_from_file_never_raises:
  "(\<exists>text. extract_text_from_file fs p = Inr text)
   \<and> (map_of fs p = None \<longrightarrow> extract_text_from_file fs p = Inr [])
   \<and> (lower (splitext_ext p) \<notin> set [''.pdf'', ''.docx'', ''.txt'', ''.doc'']
        \<longrightarrow> extract_text_from_file fs p = Inr [])
   \<and> (map_of fs p = Some f \<and> lower (splitext_ext p) = ''.pdf''
        \<and> (pdf_pages f = Inl e \<or> (\<exists>pages. pdf_pages f = Inr pages \<and> Inl e \<in> set pages))
        \<longrightarrow> extract_text_from_file fs p = Inr [])
   \<and> (map_of fs p = Some f \<and> lower (splitext_ext p) = ''.docx'' \<and> docx_paragraphs f = Inl e
        \<longrightarrow> extract_text_from_file fs p = Inr [])
   \<and> (map_of fs p = Some f \<and> lower (splitext_ext p) \<in> set [''.txt'', ''.doc'']
        \<and> ((utf8_text f = Inl e \<and> e \<noteq> UnicodeDecodeError)
            \<or> (utf8_text f = Inl UnicodeDecodeError \<and> latin1_text f = Inl e))
        \<longrightarrow> extract_text_from_file fs p = Inr [])
   \<and> (map_of fs p = Some f \<and> lower (splitext_ext p) \<in> set [''.txt'', ''.doc'']
        \<and> utf8_text f = Inr []
        \<longrightarrow> extract_text_from_file fs p = Inr [])"
proof -
  have c1: "\<exists>text. extract_text_from_file fs p = Inr text"
    by (rule extract_text_from_file_returns)
  have c2: "map_of fs p = None \<longrightarrow> extract_text_from_file fs p = Inr []"
    by (simp add: extract_text_from_file_def)
  have c3: "lower (splitext_ext p) \<notin> set [''.pdf'', ''.docx'', ''.txt'', ''.doc'']
        \<longrightarrow> extract_text_from_file fs p = Inr []"
    by (simp add: extract_text_from_file_def Let_def split: option.splits)
  have c4: "map_of fs p = Some f \<and> lower (splitext_ext p) = ''.pdf''
        \<and> (pdf_pages f = Inl e \<or> (\<exists>pages. pdf_pages f = Inr pages \<and> Inl e \<in> set pages))
        \<longrightarrow> extract_text_from_file fs p = Inr []"
    using extract_text_from_pdf_failure [of f e]
    by (simp add: extract_text_from_file_def Let_def)
  have c5: "map_of fs p = Some f \<and> lower (splitext_ext p) = ''.docx'' \<and> docx_paragraphs f = Inl e
        \<longrightarrow> extract_text_from_file fs p = Inr []"
    by (simp add: extract_text_from_file_def Let_def extract_text_from_docx_def docx_try_def)
  have c6: "map_of fs p = Some f \<and> lower (splitext_ext p) \<in> set [''.txt'', ''.doc'']
        \<and> ((utf8_text f = Inl e \<and> e \<noteq> UnicodeDecodeError)
            \<or> (utf8_text f = Inl UnicodeDecodeError \<and> latin1_text f = Inl e))
        \<longrightarrow> extract_text_from_file fs p = Inr []"
    using extract_text_from_txt_failure [of f e]
    by (auto simp add: extract_text_from_file_def Let_def)
  have c7: "map_of fs p = Some f \<and> lower (splitext_ext p) \<in> set [''.txt'', ''.doc'']
        \<and> utf8_text f = Inr []
        \<longrightarrow> extract_text_from_file fs p = Inr []"
    by (auto simp add: extract_text_from_file_def Let_def extract_text_from_txt_def strip_Nil)
  show ?thesis using c1 c2 c3 c4 c5 c6 c7 by (intro conjI)
qed


theorem extract_text_from_file_never_raises_witness:
  "extract_text_from_file [(''uploads/cv.PDF'', damaged_pdf)] ''uploads/cv.pdf'' = Inr []
  \<and> extract_text_from_file [(''uploads/cv.PDF'', damaged_pdf)] ''uploads/cv.PDF'' = Inr []
  \<and> extract_text_from_file [(''uploads/cv.png'', unreadable_file)] ''uploads/cv.png'' = Inr []
  \<and> extract_text_from_file [(''uploads/cv.docx'', unreadable_file)] ''uploads/cv.docx'' = Inr []
  \<and> extract_text_from_file [(''uploads/cv.txt'', unreadable_file)] ''uploads/cv.txt'' = Inr []
  \<and> extract_text_from_file [(''uploads/cv.doc'', zero_byte_file)] ''uploads/cv.doc'' = Inr []"
  using extract_text_from_file_never_raises [of "[(''uploads/cv.PDF'', damaged_pdf)]" "''uploads/cv.pdf''" damaged_pdf OtherException]
   extract_text_from_file_never_raises [of "[(''uploads/cv.PDF'', damaged_pdf)]" "''uploads/cv.PDF''" damaged_pdf OtherException]
   extract_text_from_file_never_raises [of "[(''uploads/cv.png'', unreadable_file)]" "''uploads/cv.png''" unreadable_file OtherException]
   extract_text_from_file_never_raises [of "[(''uploads/cv.docx'', unreadable_file)]" "''uploads/cv.docx''" unreadable_file OtherException]
   extract_text_from_file_never_raises [of "[(''uploads/cv.txt'', unreadable_file)]" "''uploads/cv.txt''" unreadable_file OSError]
   extract_text_from_file_never_raises [of "[(''uploads/cv.doc'', zero_byte_file)]" "''uploads/cv.doc''" zero_byte_file OSError]
  by (simp add: lower_def lower_char_def splitext_ext_def unreadable_file_def damaged_pdf_def zero_byte_file_def)

section \<open>Properties of the CV parsing orchestrator\<close>

lemma map_of_fill_missing:
  "map_of (fill_missing k b d) k' =
     (if k' = k \<and> \<not> truthy (dict_get d k) \<and> truthy (dict_get b k)
      then Some (dict_get b k) else map_of d k')"
  by (simp add: fill_missing_def dict_set_def update_conv')

lemma dict_get_fill_missing:
  "dict_get (fill_missing k b d) k' =
     (if k' = k \<and> \<not> truthy (dict_get d k) \<and> truthy (dict_get b k)
      then dict_get b k else dict_get d k')"
  by (simp add: dict_get_def map_of_fill_missing)

lemma map_of_parse_extracted_text:
  assumes "k \<in> {''email'', ''name'', ''phone''}"
  shows "map_of (parse_extracted_text reply extracted) k = map_of (parse_cv_with_ai reply) k
     \<or> (\<not> truthy (dict_get (parse_cv_with_ai reply) k)
         \<and> truthy (dict_get (extract_basic_info_regex extracted) k)
         \<and> map_of (parse_extracted_text reply extracted) k
             = Some (dict_get (extract_basic_info_regex extracted) k))"
  using assms
  by (auto simp add: parse_extracted_text_def Let_def map_of_fill_missing dict_get_fill_missing
      dict_set_def update_conv' dict_get_def)

lemma kept_parse_extracted_text:
  assumes "k \<in> {''email'', ''name'', ''phone''}" and "truthy (dict_get (parse_cv_with_ai reply) k)"
  shows "map_of (parse_extracted_text reply extracted) k = map_of (parse_cv_with_ai reply) k"
  using assms
  by (auto simp add: parse_extracted_text_def Let_def map_of_fill_missing dict_get_fill_missing
      dict_set_def update_conv' dict_get_def)

text \<open>
  C7 (as amended). When the extracted text is not empty, the orchestrator returns a
  profile in which each of email, name and phone keeps the value of the AI pass whenever
  that value is truthy (neither null nor empty), and differs from the AI pass only where
  the AI value is falsy and the regex fallback found a value, which is then the value
  returned.
\<close>

theorem parse_cv_file_fallback_completes:
  assumes "extract_text_from_file fs p = Inr extracted" and "extracted \<noteq> []"
    and "k \<in> {''email'', ''name'', ''phone''}"
  shows "\<exists>out. parse_cv_file fs reply p = Inr out
     \<and> (truthy (dict_get (parse_cv_with_ai reply) k)
          \<longrightarrow> map_of out k = map_of (parse_cv_with_ai reply) k)
     \<and> (map_of out k \<noteq> map_of (parse_cv_with_ai reply) k
          \<longrightarrow> \<not> truthy (dict_get (parse_cv_with_ai reply) k)
            \<and> truthy (dict_get (extract_basic_info_regex extracted) k)
            \<and> map_of out k = Some (dict_get (extract_basic_info_regex extracted) k))"
proof -
  have "parse_cv_file fs reply p = Inr (parse_extracted_text reply extracted)"
    using assms(1,2) by (simp add: parse_cv_file_def)
  moreover have "truthy (dict_get (parse_cv_with_ai reply) k)
      \<longrightarrow> map_of (parse_extracted_text reply extracted) k = map_of (parse_cv_with_ai reply) k"
    using kept_parse_extracted_text [OF assms(3)] by blast
  moreover have "map_of (parse_extracted_text reply extracted) k \<noteq> map_of (parse_cv_with_ai reply) k
      \<longrightarrow> \<not> truthy (dict_get (parse_cv_with_ai reply) k)
        \<and> truthy (dict_get (extract_basic_info_regex extracted) k)
        \<and> map_of (parse_extracted_text reply extracted) k
            = Some (dict_get (extract_basic_info_regex extracted) k)"
    using map_of_parse_extracted_text [OF assms(3), of reply extracted] by blast
  ultimately show ?thesis by blast
qed

theorem parse_cv_file_fallback_completes_witness:
  "\<exists>out. parse_cv_file [(''uploads/cv.txt'', text_file ''jane@x.com'')]
            (Reply (JObj [(''email'', JNull), (''name'', JStr ''Jane Doe'')])) ''uploads/cv.txt''
          = Inr out
     \<and> map_of out ''name'' = Some (JStr ''Jane Doe'')
     \<and> map_of out ''email'' = Some (JStr ''jane@x.com'')"
proof -
  let ?fs = "[(''uploads/cv.txt'', text_file ''jane@x.com'')]"
  let ?r = "Reply (JObj [(''email'', JNull), (''name'', JStr ''Jane Doe'')])"
  have e: "extract_text_from_file ?fs ''uploads/cv.txt'' = Inr ''jane@x.com''"
    by code_simp
  have n: "''jane@x.com'' \<noteq> []" by simp
  have tn: "truthy (dict_get (parse_cv_with_ai ?r) ''name'')"
    by code_simp
  have an: "map_of (parse_cv_with_ai ?r) ''name'' = Some (JStr ''Jane Doe'')"
    by code_simp
  have b: "dict_get (extract_basic_info_regex ''jane@x.com'') ''email'' = JStr ''jane@x.com''"
    by code_simp
  have o: "parse_cv_file ?fs ?r ''uploads/cv.txt'' = Inr (parse_extracted_text ?r ''jane@x.com'')"
    using e by (simp add: parse_cv_file_def)
  have m: "map_of (parse_extracted_text ?r ''jane@x.com'') ''email''
      \<noteq> map_of (parse_cv_with_ai ?r) ''email''"
    by code_simp
  show ?thesis
    using parse_cv_file_fallback_completes [OF e n, of "''name''" ?r]
      parse_cv_file_fallback_completes [OF e n, of "''email''" ?r] o m tn an b
    by simp
qed

text \<open>
  C7 as stated fails for an AI value that is not null but empty: the AI pass returns the
  empty string for the email, and the orchestrator replaces it by the address that the
  fallback finds in the text.
\<close>

theorem empty_ai_email_counterexample:
  "dict_get (parse_cv_with_ai (Reply (JObj [(''email'', JStr []), (''name'', JStr ''Jane Doe'')])))
      ''email'' = JStr []
   \<and> parse_cv_file [(''uploads/cv.txt'', text_file ''jane@x.com'')]
        (Reply (JObj [(''email'', JStr []), (''name'', JStr ''Jane Doe'')])) ''uploads/cv.txt''
      = Inr [(''email'', JStr ''jane@x.com''), (''name'', JStr ''Jane Doe''),
             (''experience_years'', JInt 0), (''text'', JStr ''jane@x.com'')]"
  by code_simp

section \<open>Properties of the channel handlers\<close>

lemma session_open_context [simp]: "session (open_context w) = committed w"
  by (simp add: open_context_def)

text \<open>A message whose key is already in the ledger is skipped: nothing is sent, nothing is
  committed.\<close>

lemma whatsapp_duplicate_is_skipped:
  assumes "whatsapp_log_exists (open_context w) (wa_from m) (wa_id m)"
  shows "process_whatsapp_message en w m = (close_context (open_context w), Returned)"
  using assms by (simp add: process_whatsapp_message_def whatsapp_try_def)

lemma email_duplicate_is_skipped:
  assumes "email_log_exists (open_context w) sender subj"
  shows "process_email en w msg sender subj = (close_context (open_context w), Returned)"
  using assms by (simp add: process_email_def email_try_def)

text \<open>A chat text message that is neither a duplicate nor filtered gets its
  \<^verbatim>\<open>text_received\<close> row, and no candidate is touched.\<close>

lemma chat_text_is_recorded:
  assumes "\<not> whatsapp_log_exists (open_context w) (wa_from m) (wa_id m)"
    and "\<not> (filter_enabled en \<and> \<not> whatsapp_is_eu_phone_number (wa_from m))"
    and "wa_type m = ''text''"
  shows "snd (process_whatsapp_message en w m) = Returned
     \<and> whatsapp_logs (committed (fst (process_whatsapp_message en w m)))
         = whatsapp_logs (committed w)
           @ [\<lparr>phone_number = wa_from m, message_id = wa_id m, wl_candidate_id = None,
               wl_status = ''text_received'', wl_error_message = None\<rparr>]
     \<and> candidates (committed (fst (process_whatsapp_message en w m))) = candidates (committed w)"
  using assms
  by (auto simp add: process_whatsapp_message_def whatsapp_try_def whatsapp_text_def Let_def
      commit_def add_whatsapp_log_def send_def close_context_def open_context_def)

text \<open>
  C9. With the filter enabled, a chat message from a phone number that starts with none
  of the listed calling codes, and a mail whose body contains none of them, is answered
  with the rejection text; one ledger row with the status \<^verbatim>\<open>filtered_non_eu\<close> (the
  specification's \<open>filtered_ineligible\<close>) is committed, in a single commit, and the
  candidate table is left as it was. The message is assumed not to be in the ledger yet.
\<close>

theorem ineligible_sender_is_rejected:
  "(filter_enabled en \<and> \<not> whatsapp_is_eu_phone_number (wa_from m)
      \<and> \<not> whatsapp_log_exists (open_context w) (wa_from m) (wa_id m)
    \<longrightarrow> snd (process_whatsapp_message en w m) = Returned
      \<and> candidates (committed (fst (process_whatsapp_message en w m))) = candidates (committed w)
      \<and> sent (fst (process_whatsapp_message en w m))
          = sent w @ [WhatsAppMessage (wa_from m) RejectionMsg]
      \<and> whatsapp_logs (committed (fst (process_whatsapp_message en w m)))
          = whatsapp_logs (committed w)
            @ [\<lparr>phone_number = wa_from m, message_id = wa_id m, wl_candidate_id = None,
                wl_status = ''filtered_non_eu'', wl_error_message = None\<rparr>]
      \<and> history (fst (process_whatsapp_message en w m))
          = history w @ [committed (fst (process_whatsapp_message en w m))])
   \<and> (filter_enabled en \<and> \<not> email_is_eu_phone_number (email_body_text msg)
      \<and> \<not> email_log_exists (open_context w) sender subj
    \<longrightarrow> snd (process_email en w msg sender subj) = Returned
      \<and> candidates (committed (fst (process_email en w msg sender subj)))
          = candidates (committed w)
      \<and> sent (fst (process_email en w msg sender subj))
          = sent w @ [EmailReply (snd (extract_email_info sender)) subj RejectionMsg]
      \<and> email_logs (committed (fst (process_email en w msg sender subj)))
          = email_logs (committed w)
            @ [\<lparr>sender_email = snd (extract_email_info sender), subject = subj,
                el_candidate_id = None, el_status = ''filtered_non_eu'',
                el_error_message = None\<rparr>]
      \<and> history (fst (process_email en w msg sender subj))
          = history w @ [committed (fst (process_email en w msg sender subj))])"
proof (intro conjI impI)
  assume h: "filter_enabled en \<and> \<not> whatsapp_is_eu_phone_number (wa_from m)
      \<and> \<not> whatsapp_log_exists (open_context w) (wa_from m) (wa_id m)"
  define l where "l = \<lparr>phone_number = wa_from m, message_id = wa_id m, wl_candidate_id = None,
                wl_status = ''filtered_non_eu'', wl_error_message = None\<rparr>"
  define w2 where "w2 = add_whatsapp_log (send (open_context w)
      (WhatsAppMessage (wa_from m) RejectionMsg)) l"
  have r: "process_whatsapp_message en w m =
     (close_context (w2\<lparr>committed := session w2, history := history w @ [session w2]\<rparr>), Returned)"
    using h
    by (simp add: process_whatsapp_message_def whatsapp_try_def Let_def commit_def w2_def l_def
        add_whatsapp_log_def send_def open_context_def)
  have s: "session w2 = (committed w)\<lparr>whatsapp_logs := whatsapp_logs (committed w) @ [l]\<rparr>"
    "sent w2 = sent w @ [WhatsAppMessage (wa_from m) RejectionMsg]"
    by (simp_all add: w2_def add_whatsapp_log_def send_def open_context_def)
  show "snd (process_whatsapp_message en w m) = Returned" by (simp add: r)
  show "candidates (committed (fst (process_whatsapp_message en w m))) = candidates (committed w)"
    by (simp add: r close_context_def s)
  show "sent (fst (process_whatsapp_message en w m))
          = sent w @ [WhatsAppMessage (wa_from m) RejectionMsg]"
    by (simp add: r close_context_def s)
  show "whatsapp_logs (committed (fst (process_whatsapp_message en w m)))
          = whatsapp_logs (committed w)
            @ [\<lparr>phone_number = wa_from m, message_id = wa_id m, wl_candidate_id = None,
                wl_status = ''filtered_non_eu'', wl_error_message = None\<rparr>]"
    by (simp add: r close_context_def s l_def)
  show "history (fst (process_whatsapp_message en w m))
          = history w @ [committed (fst (process_whatsapp_message en w m))]"
    by (simp add: r close_context_def s)
next
  assume h: "filter_enabled en \<and> \<not> email_is_eu_phone_number (email_body_text msg)
      \<and> \<not> email_log_exists (open_context w) sender subj"
  define l where "l = \<lparr>sender_email = snd (extract_email_info sender), subject = subj,
                el_candidate_id = None, el_status = ''filtered_non_eu'',
                el_error_message = None\<rparr>"
  define w2 where "w2 = add_email_log (send (open_context w)
      (EmailReply (snd (extract_email_info sender)) subj RejectionMsg)) l"
  have r: "process_email en w msg sender subj =
     (close_context (w2\<lparr>committed := session w2, history := history w @ [session w2]\<rparr>), Returned)"
    using h
    by (simp add: process_email_def email_try_def Let_def commit_def w2_def l_def
        add_email_log_def send_def open_context_def)
  have s: "session w2 = (committed w)\<lparr>email_logs := email_logs (committed w) @ [l]\<rparr>"
    "sent w2 = sent w @ [EmailReply (snd (extract_email_info sender)) subj RejectionMsg]"
    by (simp_all add: w2_def add_email_log_def send_def open_context_def)
  show "snd (process_email en w msg sender subj) = Returned" by (simp add: r)
  show "candidates (committed (fst (process_email en w msg sender subj)))
          = candidates (committed w)"
    by (simp add: r close_context_def s)
  show "sent (fst (process_email en w msg sender subj))
          = sent w @ [EmailReply (snd (extract_email_info sender)) subj RejectionMsg]"
    by (simp add: r close_context_def s)
  show "email_logs (committed (fst (process_email en w msg sender subj)))
          = email_logs (committed w)
            @ [\<lparr>sender_email = snd (extract_email_info sender), subject = subj,
                el_candidate_id = None, el_status = ''filtered_non_eu'',
                el_error_message = None\<rparr>]"
    by (simp add: r close_context_def s l_def)
  show "history (fst (process_email en w msg sender subj))
          = history w @ [committed (fst (process_email en w msg sender subj))]"
    by (simp add: r close_context_def s)
qed


theorem ineligible_sender_is_rejected_witness:
  "sent (fst (process_whatsapp_message filtering_env empty_world
            (text_message ''15550100'' ''wamid.9'' ''any jobs?'')))
     = [WhatsAppMessage ''15550100'' RejectionMsg]
   \<and> whatsapp_logs (committed (fst (process_whatsapp_message filtering_env empty_world
            (text_message ''15550100'' ''wamid.9'' ''any jobs?''))))
     = [\<lparr>phone_number = ''15550100'', message_id = ''wamid.9'', wl_candidate_id = None,
         wl_status = ''filtered_non_eu'', wl_error_message = None\<rparr>]
   \<and> candidates (committed (fst (process_whatsapp_message filtering_env empty_world
            (text_message ''15550100'' ''wamid.9'' ''any jobs?'')))) = []
   \<and> sent (fst (process_email filtering_env empty_world (plain_mail ''call +1 555 0100'')
            ''Sam <sam@x.org>'' ''Hello''))
     = [EmailReply ''sam@x.org'' ''Hello'' RejectionMsg]
   \<and> email_logs (committed (fst (process_email filtering_env empty_world
            (plain_mail ''call +1 555 0100'') ''Sam <sam@x.org>'' ''Hello'')))
     = [\<lparr>sender_email = ''sam@x.org'', subject = ''Hello'', el_candidate_id = None,
         el_status = ''filtered_non_eu'', el_error_message = None\<rparr>]
   \<and> candidates (committed (fst (process_email filtering_env empty_world
            (plain_mail ''call +1 555 0100'') ''Sam <sam@x.org>'' ''Hello''))) = []"
proof -
  let ?m = "text_message ''15550100'' ''wamid.9'' ''any jobs?''"
  have h1: "filter_enabled filtering_env \<and> \<not> whatsapp_is_eu_phone_number (wa_from ?m)
      \<and> \<not> whatsapp_log_exists (open_context empty_world) (wa_from ?m) (wa_id ?m)"
    by code_simp
  have h2: "filter_enabled filtering_env
      \<and> \<not> email_is_eu_phone_number (email_body_text (plain_mail ''call +1 555 0100''))
      \<and> \<not> email_log_exists (open_context empty_world) ''Sam <sam@x.org>'' ''Hello''"
    by code_simp
  have e: "snd (extract_email_info ''Sam <sam@x.org>'') = ''sam@x.org''"
    by code_simp
  show ?thesis
    using ineligible_sender_is_rejected
      [of filtering_env ?m empty_world "plain_mail ''call +1 555 0100''" "''Sam <sam@x.org>''"
         "''Hello''"] h1 h2 e
    by (simp add: empty_world_def empty_db_def text_message_def)
qed

text \<open>
  C1 fails on the email channel. The dedup check looks the ledger up under the sender
  string as passed in (\<^verbatim>\<open>Jane Doe <jane@x.com>\<close>), while the ledger row is written
  under the extracted address (\<^verbatim>\<open>jane@x.com\<close>). Handling the same mail a second time
  after a successful first time therefore updates the candidate again, sends a second
  confirmation and leaves two ledger rows for the message.
\<close>

theorem email_dedup_misses_display_name:
  "snd after_first_mail = Returned
   \<and> map el_status (email_logs (committed (fst after_first_mail))) = [''success'']
   \<and> snd after_second_mail = Returned
   \<and> map sender_email (email_logs (committed (fst after_second_mail)))
        = [''jane@x.com'', ''jane@x.com'']
   \<and> map subject (email_logs (committed (fst after_second_mail)))
        = [''Application'', ''Application'']
   \<and> map el_status (email_logs (committed (fst after_second_mail))) = [''success'', ''success'']
   \<and> sent (fst after_second_mail)
        = [EmailReply ''jane@x.com'' ''Application'' ConfirmationMsg,
           EmailReply ''jane@x.com'' ''Application'' ConfirmationMsg]
   \<and> map cv_filename (candidates (committed (fst after_first_mail))) = [JStr ''a_cv.txt'']
   \<and> map cv_filename (candidates (committed (fst after_second_mail))) = [JStr ''b_cv.txt'']"
  by code_simp

theorem email_dedup_misses_display_name_witness:
  "map el_status (email_logs (committed (fst after_second_mail))) = [''success'', ''success'']
   \<and> sent (fst after_second_mail)
        = [EmailReply ''jane@x.com'' ''Application'' ConfirmationMsg,
           EmailReply ''jane@x.com'' ''Application'' ConfirmationMsg]"
  using email_dedup_misses_display_name by blast

text \<open>
  C4 fails for a chat document whose filename has no allowed extension: the handler
  answers and returns without writing a ledger row, so that a second delivery of the same
  message is answered again.
\<close>

theorem non_cv_document_writes_no_ledger_entry:
  "snd after_photo = Returned
   \<and> whatsapp_logs (committed (fst after_photo)) = []
   \<and> history (fst after_photo) = []
   \<and> sent (fst after_photo) = [WhatsAppMessage ''447700900123'' NotCvFileMsg]
   \<and> whatsapp_logs (committed (fst after_photo_again)) = []
   \<and> sent (fst after_photo_again)
       = [WhatsAppMessage ''447700900123'' NotCvFileMsg,
          WhatsAppMessage ''447700900123'' NotCvFileMsg]"
  by code_simp

theorem non_cv_document_writes_no_ledger_entry_witness:
  "whatsapp_logs (committed (fst after_photo)) = []
   \<and> sent (fst after_photo) = [WhatsAppMessage ''447700900123'' NotCvFileMsg]"
  using non_cv_document_writes_no_ledger_entry by blast

text \<open>
  C3 fails. Without a parsed email no lookup is made: the second CV without email from
  the same phone number is inserted under the same placeholder address, the insert is
  refused by the uniqueness of the email column, the stored candidate is left as the first
  submission made it, and the commit of the error row raises on the inactive session.
\<close>

theorem second_no_email_submission_is_not_merged:
  "snd after_first_cv = Returned
   \<and> map email (candidates (committed (fst after_first_cv)))
       = [JStr ''whatsapp_447700900123@temp.com'']
   \<and> map cv_filename (candidates (committed (fst after_first_cv))) = [JStr ''a_cv.txt'']
   \<and> snd after_second_cv = Raised PendingRollbackError
   \<and> candidates (committed (fst after_second_cv)) = candidates (committed (fst after_first_cv))
   \<and> map message_id (whatsapp_logs (committed (fst after_second_cv))) = [''wamid.1'']
   \<and> sent (fst after_second_cv) = [WhatsAppMessage ''447700900123'' ConfirmationMsg]"
  by code_simp


theorem second_no_email_submission_is_not_merged_witness:
  "snd after_second_cv = Raised PendingRollbackError
   \<and> candidates (committed (fst after_second_cv)) = candidates (committed (fst after_first_cv))"
  using second_no_email_submission_is_not_merged by blast

text \<open>
  C8 (as amended). A merge into an existing candidate sets the CV filename, the CV text,
  the skills, the years of experience, the education, the work experience and the summary
  to the values of the new profile (the empty list for a list field that the profile
  lacks), sets the time of the last update to the current time, and leaves id, email, name
  and location as they were, whatever the profile holds for them. On the email channel the
  phone is left as it was too; on the chat channel the phone is set to the phone number of
  the sender.
\<close>

theorem merge_overwrites_cv_fields:
  "(truthy (dict_get cv_data ''email'')
      \<and> candidate_by_email w (dict_get cv_data ''email'') = Some c
    \<longrightarrow> (\<exists>c'. whatsapp_upsert en w from_phone cv_file cv_data = Inr (store_candidate w c', c')
          \<and> cv_filename c' = JStr cv_file
          \<and> cv_text c' = dict_get cv_data ''text''
          \<and> skills c' = dict_get_default cv_data ''skills'' (JList [])
          \<and> experience_years c' = dict_get cv_data ''experience_years''
          \<and> education c' = dict_get_default cv_data ''education'' (JList [])
          \<and> work_experience c' = dict_get_default cv_data ''work_experience'' (JList [])
          \<and> summary c' = dict_get cv_data ''summary''
          \<and> last_updated c' = now en
          \<and> cand_id c' = cand_id c \<and> email c' = email c
          \<and> name c' = name c \<and> location c' = location c
          \<and> phone c' = JStr from_phone))
   \<and> (parse_cv_text (AList.update (''uploads/'' @ timestamp en @ fst a) (snd a) (uploads w))
          (ai_service en) (''uploads/'' @ timestamp en @ fst a) = Inr cv_data
    \<longrightarrow> (\<exists>c'. email_upsert en w sender_name addr subj (Some c) (a # rest)
              = Inr (store_candidate
                       (w\<lparr>uploads := AList.update (''uploads/'' @ timestamp en @ fst a) (snd a)
                                        (uploads w)\<rparr>) c', Some c')
          \<and> cv_filename c' = JStr (timestamp en @ fst a)
          \<and> cv_text c' = dict_get cv_data ''text''
          \<and> skills c' = dict_get_default cv_data ''skills'' (JList [])
          \<and> experience_years c' = dict_get cv_data ''experience_years''
          \<and> education c' = dict_get_default cv_data ''education'' (JList [])
          \<and> work_experience c' = dict_get_default cv_data ''work_experience'' (JList [])
          \<and> summary c' = dict_get cv_data ''summary''
          \<and> last_updated c' = now en
          \<and> cand_id c' = cand_id c \<and> email c' = email c
          \<and> name c' = name c \<and> location c' = location c
          \<and> phone c' = phone c))"
proof (intro conjI impI)
  assume h: "truthy (dict_get cv_data ''email'')
      \<and> candidate_by_email w (dict_get cv_data ''email'') = Some c"
  define c' where "c' = c\<lparr>phone := JStr from_phone,
                         cv_filename := JStr cv_file,
                         cv_text := dict_get cv_data ''text'',
                         skills := dict_get_default cv_data ''skills'' (JList []),
                         experience_years := dict_get cv_data ''experience_years'',
                         education := dict_get_default cv_data ''education'' (JList []),
                         work_experience := dict_get_default cv_data ''work_experience'' (JList []),
                         summary := dict_get cv_data ''summary'',
                         last_updated := now en\<rparr>"
  have "whatsapp_upsert en w from_phone cv_file cv_data = Inr (store_candidate w c', c')"
    using h by (simp add: whatsapp_upsert_def Let_def c'_def)
  then show "\<exists>c'. whatsapp_upsert en w from_phone cv_file cv_data = Inr (store_candidate w c', c')
          \<and> cv_filename c' = JStr cv_file
          \<and> cv_text c' = dict_get cv_data ''text''
          \<and> skills c' = dict_get_default cv_data ''skills'' (JList [])
          \<and> experience_years c' = dict_get cv_data ''experience_years''
          \<and> education c' = dict_get_default cv_data ''education'' (JList [])
          \<and> work_experience c' = dict_get_default cv_data ''work_experience'' (JList [])
          \<and> summary c' = dict_get cv_data ''summary''
          \<and> last_updated c' = now en
          \<and> cand_id c' = cand_id c \<and> email c' = email c
          \<and> name c' = name c \<and> location c' = location c
          \<and> phone c' = JStr from_phone"
    by (intro exI [of _ c']) (simp add: c'_def)
next
  assume h: "parse_cv_text (AList.update (''uploads/'' @ timestamp en @ fst a) (snd a) (uploads w))
          (ai_service en) (''uploads/'' @ timestamp en @ fst a) = Inr cv_data"
  define c' where "c' = c\<lparr>cv_filename := JStr (timestamp en @ fst a),
                         cv_text := dict_get cv_data ''text'',
                         skills := dict_get_default cv_data ''skills'' (JList []),
                         experience_years := dict_get cv_data ''experience_years'',
                         education := dict_get_default cv_data ''education'' (JList []),
                         work_experience := dict_get_default cv_data ''work_experience'' (JList []),
                         summary := dict_get cv_data ''summary'',
                         last_updated := now en\<rparr>"
  have "email_upsert en w sender_name addr subj (Some c) (a # rest)
              = Inr (store_candidate
                       (w\<lparr>uploads := AList.update (''uploads/'' @ timestamp en @ fst a) (snd a)
                                        (uploads w)\<rparr>) c', Some c')"
    using h by (simp add: email_upsert_def Let_def c'_def)
  then show "\<exists>c'. email_upsert en w sender_name addr subj (Some c) (a # rest)
              = Inr (store_candidate
                       (w\<lparr>uploads := AList.update (''uploads/'' @ timestamp en @ fst a) (snd a)
                                        (uploads w)\<rparr>) c', Some c')
          \<and> cv_filename c' = JStr (timestamp en @ fst a)
          \<and> cv_text c' = dict_get cv_data ''text''
          \<and> skills c' = dict_get_default cv_data ''skills'' (JList [])
          \<and> experience_years c' = dict_get cv_data ''experience_years''
          \<and> education c' = dict_get_default cv_data ''education'' (JList [])
          \<and> work_experience c' = dict_get_default cv_data ''work_experience'' (JList [])
          \<and> summary c' = dict_get cv_data ''summary''
          \<and> last_updated c' = now en
          \<and> cand_id c' = cand_id c \<and> email c' = email c
          \<and> name c' = name c \<and> location c' = location c
          \<and> phone c' = phone c"
    by (intro exI [of _ c']) (simp add: c'_def)
qed

theorem merge_overwrites_cv_fields_witness:
  "(\<exists>c'. whatsapp_upsert go_env world_with_jane ''447700900123'' ''c_cv.txt'' go_profile
            = Inr (store_candidate world_with_jane c', c')
        \<and> skills c' = JList [JStr ''Go''] \<and> last_updated c' = 5
        \<and> name c' = JStr ''Jane Doe'' \<and> location c' = JStr ''Leeds''
        \<and> phone c' = JStr ''447700900123'')
   \<and> (\<exists>c'. email_upsert go_env world_with_jane ''Jane Doe'' ''jane@x.com'' ''Application''
              (Some jane_record) [(''cv.txt'', jane_cv)]
            = Inr (store_candidate
                     (world_with_jane\<lparr>uploads := [(''uploads/c_cv.txt'', jane_cv)]\<rparr>) c', Some c')
        \<and> skills c' = JList [JStr ''Go''] \<and> last_updated c' = 5
        \<and> name c' = JStr ''Jane Doe'' \<and> location c' = JStr ''Leeds''
        \<and> phone c' = JStr ''+1-555-0100'')"
proof -
  have h1: "truthy (dict_get go_profile ''email'')
      \<and> candidate_by_email world_with_jane (dict_get go_profile ''email'') = Some jane_record"
    by code_simp
  have h2: "parse_cv_text
       (AList.update (''uploads/'' @ timestamp go_env @ fst (''cv.txt'', jane_cv))
          (snd (''cv.txt'', jane_cv)) (uploads world_with_jane))
       (ai_service go_env) (''uploads/'' @ timestamp go_env @ fst (''cv.txt'', jane_cv))
     = Inr go_profile"
    by code_simp
  have g: "dict_get_default go_profile ''skills'' (JList []) = JList [JStr ''Go'']"
    by code_simp
  have e: "timestamp go_env = ''c_''" "now go_env = 5" "uploads world_with_jane = []"
    by (simp_all add: go_env_def example_env_def world_with_jane_def)
  have j: "name jane_record = JStr ''Jane Doe''" "location jane_record = JStr ''Leeds''"
    "phone jane_record = JStr ''+1-555-0100''"
    by (simp_all add: jane_record_def)
  show ?thesis
    using merge_overwrites_cv_fields
      [of go_profile world_with_jane jane_record go_env "''447700900123''" "''c_cv.txt''"
         "(''cv.txt'', jane_cv)" "''Jane Doe''" "''jane@x.com''" "''Application''" "[]"]
      h1 h2
    by (simp add: g e j) blast
qed

text \<open>
  C8 as stated fails on the chat channel: the stored phone of the candidate is replaced
  by the number the message came from although the phone of the new profile is null.
\<close>

theorem chat_merge_overwrites_phone_counterexample:
  "candidates (committed world_with_jane) = [jane_record]
   \<and> phone jane_record = JStr ''+1-555-0100''
   \<and> parse_cv_text [(''uploads/c_cv.txt'', jane_cv)] go_reply ''uploads/c_cv.txt'' = Inr go_profile
   \<and> dict_get go_profile ''phone'' = JNull
   \<and> snd after_jane_cv_by_chat = Returned
   \<and> map cand_id (candidates (committed (fst after_jane_cv_by_chat))) = [1]
   \<and> map phone (candidates (committed (fst after_jane_cv_by_chat))) = [JStr ''447700900123'']"
  by code_simp

lemma map_of_parse_name:
  "map_of (parse_cv_with_ai (Reply (JObj d))) ''name'' = map_of d ''name''"
  by (simp add: parse_cv_with_ai_def map_of_clean_other map_of_ensure_list)

lemma map_of_default_name:
  "map_of default_profile ''name'' = Some JNull"
  by (simp add: default_profile_def)

lemma parse_cv_with_ai_cases:
  "(\<exists>d. reply = Reply (JObj d)) \<or> parse_cv_with_ai reply = default_profile"
  by (cases reply) (auto simp add: parse_cv_with_ai_def split: json.splits)

lemma map_of_parse_extracted_name:
  "map_of (parse_extracted_text reply extracted) ''name'' = None
     \<longleftrightarrow> map_of (parse_cv_with_ai reply) ''name'' = None
          \<and> \<not> truthy (dict_get (extract_basic_info_regex extracted) ''name'')"
  by (auto simp add: parse_extracted_text_def Let_def map_of_fill_missing dict_get_fill_missing
      dict_set_def update_conv' dict_get_def split: option.splits)

lemma name_key_absent_iff:
  assumes "parse_cv_file fs reply p = Inr cv_data"
  shows "map_of cv_data ''name'' = None
     \<longleftrightarrow> (\<exists>extracted d. extract_text_from_file fs p = Inr extracted \<and> extracted \<noteq> [] \<and> reply = Reply (JObj d)
            \<and> map_of d ''name'' = None
            \<and> \<not> truthy (dict_get (extract_basic_info_regex extracted) ''name''))"
proof -
  obtain extracted where t: "extract_text_from_file fs p = Inr extracted"
    using extract_text_from_file_returns by blast
  show ?thesis
  proof (cases "extracted = []")
    case True
    then have "cv_data = empty_text_profile" using assms t by (simp add: parse_cv_file_def)
    then show ?thesis using t True by (simp add: empty_text_profile_def)
  next
    case False
    then have c: "cv_data = parse_extracted_text reply extracted"
      using assms t by (simp add: parse_cv_file_def)
    show ?thesis
    proof (cases "\<exists>d. reply = Reply (JObj d)")
      case True
      then obtain d where d: "reply = Reply (JObj d)" by blast
      show ?thesis using t False
        by (simp add: c d map_of_parse_extracted_name map_of_parse_name)
    next
      case no_dict: False
      then have "parse_cv_with_ai reply = default_profile"
        using parse_cv_with_ai_cases [of reply] by blast
      then show ?thesis using no_dict
        by (simp add: c map_of_parse_extracted_name map_of_default_name)
    qed
  qed
qed


text \<open>
  C10 (as amended). When no existing candidate is found, the name of the row that a
  handler offers to the store is \<^verbatim>\<open>cv_data.get('name', default)\<close>: if the parsed profile
  has a \<open>name\<close> entry, the name is that entry's value and the sender-derived default is not
  used; if that value is null, the insert is refused with an integrity error (the name
  column is not nullable). The default is used exactly when the profile has no \<open>name\<close>
  entry, and the profile that the orchestrator returns has none exactly when some text was
  extracted, the service replied with a dictionary without a \<open>name\<close> entry, and the regex
  fallback found no name.
\<close>

theorem new_candidate_name_is_profile_name:
  "((\<not> truthy (dict_get cv_data ''email'')
       \<or> candidate_by_email w (dict_get cv_data ''email'') = None)
     \<longrightarrow> (map_of cv_data ''name'' = Some JNull
           \<longrightarrow> whatsapp_upsert en w from_phone cv_file cv_data
               = Inl (w\<lparr>session := committed w, inactive := True\<rparr>, IntegrityError))
       \<and> (\<forall>w' c'. whatsapp_upsert en w from_phone cv_file cv_data = Inr (w', c')
           \<longrightarrow> (\<forall>v. map_of cv_data ''name'' = Some v \<longrightarrow> name c' = v)
             \<and> (map_of cv_data ''name'' = None
                  \<longrightarrow> name c' = JStr (''WhatsApp User '' @ from_phone))))
   \<and> (parse_cv_text (AList.update (''uploads/'' @ timestamp en @ fst a) (snd a) (uploads w))
          (ai_service en) (''uploads/'' @ timestamp en @ fst a) = Inr cv_data
     \<longrightarrow> (map_of cv_data ''name'' = Some JNull
           \<longrightarrow> (\<exists>w'. email_upsert en w sender_name addr subj None (a # rest)
                      = Inl (w', IntegrityError)))
       \<and> (\<forall>w' c'. email_upsert en w sender_name addr subj None (a # rest) = Inr (w', Some c')
           \<longrightarrow> (\<forall>v. map_of cv_data ''name'' = Some v \<longrightarrow> name c' = v)
             \<and> (map_of cv_data ''name'' = None \<longrightarrow> name c' = JStr sender_name)))
   \<and> (parse_cv_file fs reply p = Inr cv_data
     \<longrightarrow> (map_of cv_data ''name'' = None
           \<longleftrightarrow> (\<exists>extracted d. extract_text_from_file fs p = Inr extracted \<and> extracted \<noteq> []
                  \<and> reply = Reply (JObj d) \<and> map_of d ''name'' = None
                  \<and> \<not> truthy (dict_get (extract_basic_info_regex extracted) ''name''))))"
proof -
  have chat: "(\<not> truthy (dict_get cv_data ''email'')
       \<or> candidate_by_email w (dict_get cv_data ''email'') = None)
     \<longrightarrow> (map_of cv_data ''name'' = Some JNull
           \<longrightarrow> whatsapp_upsert en w from_phone cv_file cv_data
               = Inl (w\<lparr>session := committed w, inactive := True\<rparr>, IntegrityError))
       \<and> (\<forall>w' c'. whatsapp_upsert en w from_phone cv_file cv_data = Inr (w', c')
           \<longrightarrow> (\<forall>v. map_of cv_data ''name'' = Some v \<longrightarrow> name c' = v)
             \<and> (map_of cv_data ''name'' = None
                  \<longrightarrow> name c' = JStr (''WhatsApp User '' @ from_phone)))"
    by (auto simp add: whatsapp_upsert_def add_and_flush_def Let_def dict_get_default_def
        split: if_splits)
  have mail: "parse_cv_text (AList.update (''uploads/'' @ timestamp en @ fst a) (snd a) (uploads w))
          (ai_service en) (''uploads/'' @ timestamp en @ fst a) = Inr cv_data
     \<longrightarrow> (map_of cv_data ''name'' = Some JNull
           \<longrightarrow> (\<exists>w'. email_upsert en w sender_name addr subj None (a # rest)
                      = Inl (w', IntegrityError)))
       \<and> (\<forall>w' c'. email_upsert en w sender_name addr subj None (a # rest) = Inr (w', Some c')
           \<longrightarrow> (\<forall>v. map_of cv_data ''name'' = Some v \<longrightarrow> name c' = v)
             \<and> (map_of cv_data ''name'' = None \<longrightarrow> name c' = JStr sender_name))"
    by (auto simp add: email_upsert_def add_and_flush_def Let_def dict_get_default_def
        split: if_splits)
  have key: "parse_cv_file fs reply p = Inr cv_data
     \<longrightarrow> (map_of cv_data ''name'' = None
           \<longleftrightarrow> (\<exists>extracted d. extract_text_from_file fs p = Inr extracted \<and> extracted \<noteq> []
                  \<and> reply = Reply (JObj d) \<and> map_of d ''name'' = None
                  \<and> \<not> truthy (dict_get (extract_basic_info_regex extracted) ''name'')))"
    using name_key_absent_iff [of fs reply p cv_data] by blast
  show ?thesis using chat mail key by (intro conjI)
qed


theorem new_candidate_name_is_profile_name_witness:
  "whatsapp_upsert nameless_env empty_world ''447700900123'' ''d_cv.txt'' null_name_profile
     = Inl (empty_world\<lparr>session := committed empty_world, inactive := True\<rparr>, IntegrityError)
   \<and> (\<exists>w' c'. whatsapp_upsert nameless_env empty_world ''447700900123'' ''d_cv.txt''
                 nameless_profile = Inr (w', c')
          \<and> name c' = JStr ''WhatsApp User 447700900123'')
   \<and> (\<exists>w' c'. email_upsert nameless_env empty_world ''Jane Doe'' ''jane@x.com'' ''Application''
                 None [(''cv.txt'', nameless_cv)] = Inr (w', Some c')
          \<and> name c' = JStr ''Jane Doe'')
   \<and> parse_cv_file [(''uploads/d_cv.txt'', nameless_cv)] nameless_reply ''uploads/d_cv.txt''
       = Inr nameless_profile
   \<and> map_of nameless_profile ''name'' = None"
proof -
  let ?fs = "[(''uploads/d_cv.txt'', nameless_cv)]"
  have h1: "\<not> truthy (dict_get null_name_profile ''email'')
      \<or> candidate_by_email empty_world (dict_get null_name_profile ''email'') = None"
    by code_simp
  have n1: "map_of null_name_profile ''name'' = Some JNull"
    by code_simp
  have a: "whatsapp_upsert nameless_env empty_world ''447700900123'' ''d_cv.txt'' null_name_profile
     = Inl (empty_world\<lparr>session := committed empty_world, inactive := True\<rparr>, IntegrityError)"
    using new_candidate_name_is_profile_name
      [of null_name_profile empty_world nameless_env "''447700900123''" "''d_cv.txt''"] h1 n1
    by blast
  have h2: "\<not> truthy (dict_get nameless_profile ''email'')
      \<or> candidate_by_email empty_world (dict_get nameless_profile ''email'') = None"
    by code_simp
  have n2: "map_of nameless_profile ''name'' = None"
    by code_simp
  have "\<not> isl (whatsapp_upsert nameless_env empty_world ''447700900123'' ''d_cv.txt''
               nameless_profile)"
    by code_simp
  then obtain w1 c1 where r1: "whatsapp_upsert nameless_env empty_world ''447700900123''
      ''d_cv.txt'' nameless_profile = Inr (w1, c1)"
    by (cases "whatsapp_upsert nameless_env empty_world ''447700900123'' ''d_cv.txt''
               nameless_profile") auto
  have "name c1 = JStr (''WhatsApp User '' @ ''447700900123'')"
    using new_candidate_name_is_profile_name
      [of nameless_profile empty_world nameless_env "''447700900123''" "''d_cv.txt''"] h2 n2 r1
    by blast
  then have b: "\<exists>w' c'. whatsapp_upsert nameless_env empty_world ''447700900123'' ''d_cv.txt''
                 nameless_profile = Inr (w', c')
          \<and> name c' = JStr ''WhatsApp User 447700900123''"
    using r1 by simp
  have p: "parse_cv_text
       (AList.update (''uploads/'' @ timestamp nameless_env @ fst (''cv.txt'', nameless_cv))
          (snd (''cv.txt'', nameless_cv)) (uploads empty_world))
       (ai_service nameless_env)
       (''uploads/'' @ timestamp nameless_env @ fst (''cv.txt'', nameless_cv))
     = Inr nameless_profile"
    by code_simp
  have "case email_upsert nameless_env empty_world ''Jane Doe'' ''jane@x.com'' ''Application''
               None [(''cv.txt'', nameless_cv)] of
          Inr (w', Some c') \<Rightarrow> True | _ \<Rightarrow> False"
    by code_simp
  then obtain w2 c2 where r2: "email_upsert nameless_env empty_world ''Jane Doe'' ''jane@x.com''
      ''Application'' None [(''cv.txt'', nameless_cv)] = Inr (w2, Some c2)"
    by (auto split: sum.splits prod.splits option.splits)
  have "name c2 = JStr ''Jane Doe''"
    using new_candidate_name_is_profile_name
      [of nameless_profile empty_world nameless_env _ _ "(''cv.txt'', nameless_cv)"
          "''Jane Doe''" "''jane@x.com''" "''Application''" "[]"] p n2 r2
    by blast
  then have c: "\<exists>w' c'. email_upsert nameless_env empty_world ''Jane Doe'' ''jane@x.com''
      ''Application'' None [(''cv.txt'', nameless_cv)] = Inr (w', Some c')
          \<and> name c' = JStr ''Jane Doe''"
    using r2 by simp
  have d: "parse_cv_file ?fs nameless_reply ''uploads/d_cv.txt'' = Inr nameless_profile"
    by code_simp
  show ?thesis using a b c d n2 by (intro conjI)
qed

text \<open>
  C10 as stated fails: the parsed profile does not always contain a \<open>name\<close> entry. For a
  service reply that omits it and a text without a name line, the stored name is the
  sender-derived default on both channels.
\<close>

theorem default_name_is_used_counterexample:
  "parse_cv_text [(''uploads/d_cv.txt'', nameless_cv)] nameless_reply ''uploads/d_cv.txt''
     = Inr nameless_profile
   \<and> map_of nameless_profile ''name'' = None
   \<and> snd after_nameless_cv_by_chat = Returned
   \<and> map name (candidates (committed (fst after_nameless_cv_by_chat)))
       = [JStr ''WhatsApp User 447700900123'']
   \<and> snd after_nameless_cv_by_mail = Returned
   \<and> map name (candidates (committed (fst after_nameless_cv_by_mail))) = [JStr ''Jane Doe'']"
  by code_simp










lemma open_context_frame [simp]:
  "uploads (open_context w) = uploads w" "history (open_context w) = history w"
  "sent (open_context w) = sent w" "committed (open_context w) = committed w"
  "inactive (open_context w) = False"
  by (simp_all add: open_context_def)











end
